theory Spec2Isabelle
  imports Main "HOL-Library.Word"
begin

unbundle bit_operations_syntax

chapter \<open>usercorn: a shallow embedding of the emulation harness\<close>

text \<open>
  The theory follows \<^verbatim>\<open>go/usercorn.go\<close>, \<^verbatim>\<open>go/kernel/posix/io.go\<close> and
  \<^verbatim>\<open>go/kernel/posix/mman.go\<close>. Go's \<^verbatim>\<open>uint64\<close> is \<^typ>\<open>64 word\<close> (arithmetic wraps),
  a Go string is a list of bytes (\<^typ>\<open>string\<close>), a Go \<^verbatim>\<open>error\<close> result is an
  \<open>option\<close> (\<open>None\<close> is \<^verbatim>\<open>nil\<close>) and a \<^verbatim>\<open>panic\<close> is a value of its own.
  Collaborators that live outside the harness (the CPU engine, the host operating
  system, Go's standard library, the binary loaders) are parameters of the functions
  that call them.
\<close>

section \<open>Definitions\<close>

subsection \<open>Basic types\<close>

type_synonym uint64 = "64 word"

text \<open>A guest or host byte. Go strings are byte sequences, so a string converts to bytes as it is.\<close>

type_synonym byte = char

text \<open>A host system call fails with an errno number (\<^verbatim>\<open>syscall.Errno\<close>).\<close>

type_synonym syscall_Errno = nat

text \<open>
  Error values of the harness itself, and \<open>External\<close> for an error handed back by a
  collaborator (loader, engine, host).
\<close>

datatype error =
    UnsupportedLoadType
  | InterpArchMismatch
  | External string

text \<open>The engine's protection bits (\<^verbatim>\<open>uc.PROT_*\<close>).\<close>

definition PROT_NONE :: int where "PROT_NONE = 0"
definition PROT_READ :: int where "PROT_READ = 1"
definition PROT_WRITE :: int where "PROT_WRITE = 2"
definition PROT_EXEC :: int where "PROT_EXEC = 4"
definition PROT_ALL :: int where "PROT_ALL = 7"

subsection \<open>POSIX kernel: Close\<close>

text \<open>
  Modelled from the spec: \<^verbatim>\<open>Errno\<close> of package posix is not among the sources. The
  spec (section 7): host errors are "mapped to the guest errno via \<^verbatim>\<open>Errno(err)\<close>
  returning an unsigned word (negative errno in two's-complement, consistent with
  kernel ABI)"; no error is 0.
\<close>

fun Errno :: "syscall_Errno option \<Rightarrow> uint64" where
  "Errno None = 0"
| "Errno (Some e) = - (of_nat e)"

text \<open>
  \<^verbatim>\<open>func (k *PosixKernel) Close(fd co.Fd) uint64\<close>. The host is a state \<open>'h\<close>;
  \<open>syscall_Close\<close> is the host's close operation, returning its error and the new
  host state.
\<close>

definition PosixKernel_Close ::
  "('h \<Rightarrow> int \<Rightarrow> syscall_Errno option \<times> 'h) \<Rightarrow> 'h \<Rightarrow> int \<Rightarrow> uint64 \<times> 'h" where
  "PosixKernel_Close syscall_Close h fd =
     (if fd = 2 then (0, h)
      else (let (err, h') = syscall_Close h fd in (Errno err, h')))"

text \<open>A small host for the examples: the open descriptors; closing one that is not open is EBADF (9).\<close>

definition fdtable_close :: "int list \<Rightarrow> int \<Rightarrow> syscall_Errno option \<times> int list" where
  "fdtable_close fds fd = (if fd \<in> set fds then (None, removeAll fd fds) else (Some 9, fds))"

subsection \<open>Path sandbox: PrefixPath\<close>

text \<open>
  The functions of Go's \<^verbatim>\<open>path/filepath\<close> and \<^verbatim>\<open>os\<close> that \<^verbatim>\<open>PrefixPath\<close> calls, on
  the host as it stands at the call: \<open>os_Stat\<close> gives the error of \<^verbatim>\<open>os.Stat\<close>, the
  errno of the failed system call, or \<open>None\<close> when the call finds the path.
\<close>

record hostfs =
  filepath_IsAbs :: "string \<Rightarrow> bool"
  filepath_Join :: "string \<Rightarrow> string \<Rightarrow> string"
  os_Stat :: "string \<Rightarrow> syscall_Errno option"

definition ENOENT :: syscall_Errno where "ENOENT = 2"
definition EACCES :: syscall_Errno where "EACCES = 13"
definition ENOTDIR :: syscall_Errno where "ENOTDIR = 20"

text \<open>
  \<^verbatim>\<open>os.IsNotExist(err)\<close> of Go's standard library: of the errors of a system call it
  holds for ENOENT only, and not for \<^verbatim>\<open>nil\<close>.
\<close>

definition os_IsNotExist :: "syscall_Errno option \<Rightarrow> bool" where
  "os_IsNotExist err \<longleftrightarrow> err = Some ENOENT"

text \<open>\<^verbatim>\<open>func (u *Usercorn) PrefixPath(path string, force bool) string\<close>, with \<^verbatim>\<open>u.LoadPrefix\<close> as \<open>prefix\<close>.\<close>

definition PrefixPath :: "hostfs \<Rightarrow> string \<Rightarrow> string \<Rightarrow> bool \<Rightarrow> string" where
  "PrefixPath fs prefix path force =
     (if filepath_IsAbs fs path \<and> prefix \<noteq> ''''
      then (let target = filepath_Join fs prefix path;
                err = os_Stat fs target;
                exists = \<not> os_IsNotExist err
            in if force \<or> exists then target else path)
      else path)"

text \<open>The path exists on the host: \<^verbatim>\<open>os.Stat\<close> finds it.\<close>

definition exists_on_host :: "hostfs \<Rightarrow> string \<Rightarrow> bool" where
  "exists_on_host fs p \<longleftrightarrow> os_Stat fs p = None"

text \<open>
  A host for the examples: absolute paths start with a slash, joining appends the
  path to the prefix (enough for the clean absolute paths used here), and exactly the
  listed paths exist, each a regular file. A path that runs through a regular file
  as if it were a directory fails with ENOTDIR, any other missing path with ENOENT.
\<close>

definition under_file :: "string \<Rightarrow> string \<Rightarrow> bool" where
  "under_file p f \<longleftrightarrow> take (length f + 1) p = f @ ''/''"

definition list_fs :: "string list \<Rightarrow> hostfs" where
  "list_fs files =
     \<lparr> filepath_IsAbs = (\<lambda>p. p \<noteq> [] \<and> hd p = CHR ''/''),
       filepath_Join = (\<lambda>a b. a @ b),
       os_Stat = (\<lambda>p. if p \<in> set files then None
                       else if list_ex (under_file p) files then Some ENOTDIR
                       else Some ENOENT) \<rparr>"

subsection \<open>Syscall dispatch\<close>

text \<open>The typed argument slots of a syscall's input signature.\<close>

datatype arg_slot = Fd | Buf | Obuf | Len | Off | Ptr | Int_slot









subsection \<open>Loader capability and emulator state\<close>

text \<open>\<^verbatim>\<open>models.Symbol\<close>: a name and its extent in the image's own offset space.\<close>

record Symbol =
  Name :: string
  Start :: uint64
  End :: uint64

text \<open>Go's zero value of \<^verbatim>\<open>models.Symbol\<close>, the result of a bare \<^verbatim>\<open>return\<close> in the symbol search.\<close>

definition zero_Symbol :: Symbol where
  "zero_Symbol = \<lparr> Name = '''', Start = 0, End = 0 \<rparr>"

text \<open>A raw segment as the loader reports it; \<open>Data\<close> is the result of \<^verbatim>\<open>seg.Data()\<close>.\<close>

record SegmentData =
  Addr :: uint64
  Size :: uint64
  Prot :: int
  Data :: "error + byte list"

datatype load_type = EXEC | DYN | Other_type int

text \<open>
  The loader capability (\<^verbatim>\<open>models.Loader\<close>) as the values its methods return. The
  error of \<^verbatim>\<open>Symbols()\<close> is dropped by its only callers, so \<open>Symbols\<close> is the list.
\<close>

record Loader =
  Arch :: string
  OS :: string
  Type :: load_type
  Entry :: uint64
  Segments :: "error + SegmentData list"
  Interp :: string
  Symbols :: "Symbol list"

text \<open>\<^verbatim>\<open>models.Segment\<close>: a page-aligned span \<open>[seg_Start, seg_End)\<close> with its protection.\<close>

record Segment =
  seg_Start :: uint64
  seg_End :: uint64
  seg_Prot :: int

text \<open>\<^verbatim>\<open>models.LoopDetect\<close>: only its counter \<^verbatim>\<open>Loops\<close> is read by the code below.\<close>

record LoopDetect =
  Loops :: int

text \<open>
  Modelled from the spec: \<^verbatim>\<open>models.StatusDiff\<close> is not among the sources. The spec
  (section 3): "captures last-observed register values; \<^verbatim>\<open>Changes()\<close> returns the
  register deltas since the previous call and updates the snapshot". \<open>oldRegs\<close> is
  the snapshot, in the architecture's register order.
\<close>

record StatusDiff =
  oldRegs :: "uint64 list"

text \<open>
  The fields of \<^verbatim>\<open>type Usercorn struct\<close> that the functions below read or write.
  \<open>Unicorn\<close> is the embedded engine facade with its state \<open>'m\<close>. The kernel list
  is passed to \<^verbatim>\<open>Syscall\<close> as an argument; \<open>deadlock\<close> is a counter that only counts
  up from 0.
\<close>

record 'm Usercorn =
  Unicorn :: 'm
  exe :: string
  loader :: Loader
  interpLoader :: "Loader option"
  base :: uint64
  interpBase :: uint64
  entry :: uint64
  binEntry :: uint64
  brk :: uint64
  TraceExec :: bool
  TraceReg :: bool
  traceMatching :: bool
  ForceBase :: uint64
  ForceInterpBase :: uint64
  Demangle :: bool
  LoadPrefix :: string
  status :: StatusDiff
  blockloop :: "LoopDetect option"
  lastCode :: uint64
  deadlock :: nat

subsection \<open>The engine facade\<close>

text \<open>
  The memory operations of \<^verbatim>\<open>*Unicorn\<close> that the harness calls. Each takes the engine
  state and returns the new one with the Go results; \<open>Unicorn_Mmap\<close> returns the base
  address beside its error, as the Go function does.
\<close>

record 'm Unicorn_ops =
  Unicorn_Mmap :: "'m \<Rightarrow> uint64 \<Rightarrow> uint64 \<Rightarrow> (uint64 \<times> error option) \<times> 'm"
  Unicorn_MemMapProt :: "'m \<Rightarrow> uint64 \<Rightarrow> uint64 \<Rightarrow> int \<Rightarrow> error option \<times> 'm"
  Unicorn_MemWrite :: "'m \<Rightarrow> uint64 \<Rightarrow> byte list \<Rightarrow> error option \<times> 'm"

definition UC_MEM_ALIGN :: uint64 where
  "UC_MEM_ALIGN = 0x1000"

text \<open>
  Modelled from the spec: \<^verbatim>\<open>align\<close> is defined with the engine facade, not among the
  sources. The spec (section 4.2): "\<^verbatim>\<open>align(addr, size, up=true)\<close> rounds \<^verbatim>\<open>addr\<close>
  down and \<^verbatim>\<open>addr+size\<close> up to a page". The result is the aligned address and the
  size of the aligned span.
\<close>

definition align :: "uint64 \<Rightarrow> uint64 \<Rightarrow> uint64 \<times> uint64" where
  "align addr sz =
     (let mask = UC_MEM_ALIGN - 1;
          left = addr AND NOT mask;
          right = (addr + sz + mask) AND NOT mask
      in (left, right - left))"

text \<open>
  Modelled from the spec: a memory for the engine facade, which is not among the
  sources. The spec (section 4.2): \<^verbatim>\<open>MemMapProt(addr, size, prot)\<close> "maps (addr,
  addr+size) with exact protection"; \<^verbatim>\<open>Mmap(hint, size)\<close> "reserves a page-aligned
  region of >= size bytes; returns the actual base. Default protection: R|W";
  \<^verbatim>\<open>MemWrite(addr, bytes)\<close>. The spec does not say where \<^verbatim>\<open>Mmap\<close> places the region:
  \<open>place\<close> chooses the base from the mappings, the aligned hint and the aligned size.
\<close>

record mmap =
  m_Addr :: uint64
  m_Size :: uint64
  m_Prot :: int

record Memory =
  mapped :: "mmap list"
  contents :: "uint64 \<Rightarrow> byte"

fun write_bytes :: "(uint64 \<Rightarrow> byte) \<Rightarrow> uint64 \<Rightarrow> byte list \<Rightarrow> (uint64 \<Rightarrow> byte)" where
  "write_bytes f a [] = f"
| "write_bytes f a (b # bs) = write_bytes (f(a := b)) (a + 1) bs"

definition read_bytes :: "Memory \<Rightarrow> uint64 \<Rightarrow> nat \<Rightarrow> byte list" where
  "read_bytes m a n = map (\<lambda>i. contents m (a + of_nat i)) [0..<n]"

definition spec_MemMapProt :: "Memory \<Rightarrow> uint64 \<Rightarrow> uint64 \<Rightarrow> int \<Rightarrow> error option \<times> Memory" where
  "spec_MemMapProt m addr sz prot =
     (None, m\<lparr> mapped := mapped m @ [\<lparr> m_Addr = addr, m_Size = sz, m_Prot = prot \<rparr>] \<rparr>)"

definition spec_Mmap ::
  "(mmap list \<Rightarrow> uint64 \<Rightarrow> uint64 \<Rightarrow> uint64) \<Rightarrow> Memory \<Rightarrow> uint64 \<Rightarrow> uint64 \<Rightarrow> (uint64 \<times> error option) \<times> Memory" where
  "spec_Mmap place m hint sz =
     (let (a, n) = align hint sz;
          b = place (mapped m) a n;
          (err, m') = spec_MemMapProt m b n (PROT_READ OR PROT_WRITE)
      in ((b, err), m'))"

definition spec_MemWrite :: "Memory \<Rightarrow> uint64 \<Rightarrow> byte list \<Rightarrow> error option \<times> Memory" where
  "spec_MemWrite m addr bs = (None, m\<lparr> contents := write_bytes (contents m) addr bs \<rparr>)"

definition spec_ops :: "(mmap list \<Rightarrow> uint64 \<Rightarrow> uint64 \<Rightarrow> uint64) \<Rightarrow> Memory Unicorn_ops" where
  "spec_ops place =
     \<lparr> Unicorn_Mmap = spec_Mmap place,
       Unicorn_MemMapProt = spec_MemMapProt,
       Unicorn_MemWrite = spec_MemWrite \<rparr>"

text \<open>A placement for the examples: the aligned hint itself.\<close>

definition place_at_hint :: "mmap list \<Rightarrow> uint64 \<Rightarrow> uint64 \<Rightarrow> uint64" where
  "place_at_hint ms a n = a"

definition empty_Memory :: Memory where
  "empty_Memory = \<lparr> mapped = [], contents = (\<lambda>a. CHR 0x00) \<rparr>"

text \<open>
  Modelled from the spec: the same memory with the refusals of the engine. The spec
  (section 4.4): "the CPU engine rejects overlapping mappings"; (section 4.2)
  \<^verbatim>\<open>MemMapProt\<close> maps the range from \<^verbatim>\<open>addr\<close> to \<^verbatim>\<open>addr+size\<close>, which is no range when
  \<^verbatim>\<open>addr+size\<close> wraps around the address space; (section 7) a write to memory that is
  not mapped is an invalid access.
\<close>

definition ranges_overlap :: "uint64 \<Rightarrow> uint64 \<Rightarrow> mmap \<Rightarrow> bool" where
  "ranges_overlap addr sz r \<longleftrightarrow>
     unat addr < unat (m_Addr r) + unat (m_Size r) \<and> unat (m_Addr r) < unat addr + unat sz"

definition inside_mapping :: "uint64 \<Rightarrow> nat \<Rightarrow> mmap \<Rightarrow> bool" where
  "inside_mapping addr n r \<longleftrightarrow>
     unat (m_Addr r) \<le> unat addr \<and> unat addr + n \<le> unat (m_Addr r) + unat (m_Size r)"

definition strict_MemMapProt :: "Memory \<Rightarrow> uint64 \<Rightarrow> uint64 \<Rightarrow> int \<Rightarrow> error option \<times> Memory" where
  "strict_MemMapProt m addr sz prot =
     (if addr + sz < addr \<or> list_ex (ranges_overlap addr sz) (mapped m)
      then (Some (External ''invalid mapping''), m)
      else spec_MemMapProt m addr sz prot)"

definition strict_Mmap ::
  "(mmap list \<Rightarrow> uint64 \<Rightarrow> uint64 \<Rightarrow> uint64) \<Rightarrow> Memory \<Rightarrow> uint64 \<Rightarrow> uint64 \<Rightarrow> (uint64 \<times> error option) \<times> Memory" where
  "strict_Mmap place m hint sz =
     (let (a, n) = align hint sz;
          b = place (mapped m) a n;
          (err, m') = strict_MemMapProt m b n (PROT_READ OR PROT_WRITE)
      in ((b, err), m'))"

definition strict_MemWrite :: "Memory \<Rightarrow> uint64 \<Rightarrow> byte list \<Rightarrow> error option \<times> Memory" where
  "strict_MemWrite m addr bs =
     (if list_ex (inside_mapping addr (length bs)) (mapped m)
      then spec_MemWrite m addr bs
      else (Some (External ''write to unmapped memory''), m))"

definition strict_ops :: "(mmap list \<Rightarrow> uint64 \<Rightarrow> uint64 \<Rightarrow> uint64) \<Rightarrow> Memory Unicorn_ops" where
  "strict_ops place =
     \<lparr> Unicorn_Mmap = strict_Mmap place,
       Unicorn_MemMapProt = strict_MemMapProt,
       Unicorn_MemWrite = strict_MemWrite \<rparr>"

subsection \<open>Address-space builder: merging segments\<close>

text \<open>
  Modelled from the spec: the methods \<^verbatim>\<open>Overlaps\<close> and \<^verbatim>\<open>Merge\<close> of
  \<^verbatim>\<open>models.Segment\<close> are not among the sources. The spec (section 4.4): spans are
  merged "by repeatedly unioning overlapping spans (by start/end, not by
  protection). Protection of merged spans is the bitwise OR of their constituents."
  Two spans overlap when they share an address.
\<close>

definition Overlaps :: "Segment \<Rightarrow> Segment \<Rightarrow> bool" where
  "Overlaps s o2 \<longleftrightarrow> seg_Start s < seg_End o2 \<and> seg_Start o2 < seg_End s"

definition Merge :: "Segment \<Rightarrow> Segment \<Rightarrow> Segment" where
  "Merge s o2 =
     \<lparr> seg_Start = min (seg_Start s) (seg_Start o2),
       seg_End = max (seg_End s) (seg_End o2),
       seg_Prot = seg_Prot s OR seg_Prot o2 \<rparr>"

text \<open>
  The inner loop of the merge step of \<^verbatim>\<open>mapBinary\<close>: the first span of \<open>merged\<close> that
  overlaps \<open>s\<close> absorbs it (\<^verbatim>\<open>s2.Merge(s); continue outer\<close>); \<open>None\<close> when the loop
  ends without a match.
\<close>

fun merge_first :: "Segment \<Rightarrow> Segment list \<Rightarrow> Segment list option" where
  "merge_first s [] = None"
| "merge_first s (s2 # merged) =
     (if Overlaps s2 s then Some (Merge s2 s # merged)
      else map_option ((#) s2) (merge_first s merged))"

text \<open>
  The outer loop (lines 485 to 498): each raw segment is aligned and either absorbed
  or appended.
\<close>

fun merge_segments :: "SegmentData list \<Rightarrow> Segment list \<Rightarrow> Segment list" where
  "merge_segments [] merged = merged"
| "merge_segments (seg # segments) merged =
     (let (addr, sz) = align (Addr seg) (Size seg);
          s = \<lparr> seg_Start = addr, seg_End = addr + sz, seg_Prot = Prot seg \<rparr>
      in case merge_first s merged of
           Some merged' \<Rightarrow> merge_segments segments merged'
         | None \<Rightarrow> merge_segments segments (merged @ [s]))"

text \<open>A merged span read as a raw segment again, to merge a second time.\<close>

definition as_raw :: "Segment \<Rightarrow> SegmentData" where
  "as_raw s = \<lparr> Addr = seg_Start s, Size = seg_End s - seg_Start s, Prot = seg_Prot s, Data = Inr [] \<rparr>"

definition raw_segment :: "uint64 \<Rightarrow> uint64 \<Rightarrow> int \<Rightarrow> SegmentData" where
  "raw_segment a n p = \<lparr> Addr = a, Size = n, Prot = p, Data = Inr [] \<rparr>"

subsection \<open>Brk\<close>

text \<open>\<^verbatim>\<open>func (u *Usercorn) Brk(addr uint64) (uint64, error)\<close>\<close>

definition Brk :: "'m Unicorn_ops \<Rightarrow> 'm Usercorn \<Rightarrow> uint64 \<Rightarrow> (uint64 \<times> error option) \<times> 'm Usercorn" where
  "Brk U u addr =
     (if addr > 0 then
        (case Unicorn_MemMapProt U (Unicorn u) (brk u) (addr - brk u) (PROT_READ OR PROT_WRITE) of
           (Some err, m) \<Rightarrow> ((brk u, Some err), u\<lparr> Unicorn := m \<rparr>)
         | (None, m) \<Rightarrow> ((addr, None), u\<lparr> Unicorn := m, brk := addr \<rparr>))
      else ((brk u, None), u))"

text \<open>A sequence of Brk calls, each on the state the one before left.\<close>

fun Brk_calls :: "'m Unicorn_ops \<Rightarrow> 'm Usercorn \<Rightarrow> uint64 list \<Rightarrow> 'm Usercorn" where
  "Brk_calls U u [] = u"
| "Brk_calls U u (a # as) = Brk_calls U (snd (Brk U u a)) as"

text \<open>Every argument of the sequence is 0 or at least the brk value at its call.\<close>

fun never_below :: "'m Unicorn_ops \<Rightarrow> 'm Usercorn \<Rightarrow> uint64 list \<Rightarrow> bool" where
  "never_below U u [] = True"
| "never_below U u (a # as) = ((a = 0 \<or> brk u \<le> a) \<and> never_below U (snd (Brk U u a)) as)"

text \<open>
  The facade refuses to map a range whose end \<^verbatim>\<open>addr+size\<close> wraps around the address
  space.
\<close>

definition refuses_wrapped :: "'m Unicorn_ops \<Rightarrow> bool" where
  "refuses_wrapped U \<longleftrightarrow>
     (\<forall>m addr sz prot. addr + sz < addr \<longrightarrow> fst (Unicorn_MemMapProt U m addr sz prot) \<noteq> None)"

text \<open>An emulator state for the examples.\<close>

definition empty_Loader :: Loader where
  "empty_Loader =
     \<lparr> Arch = ''x86_64'', OS = ''linux'', Type = EXEC, Entry = 0, Segments = Inr [],
       Interp = '''', Symbols = [] \<rparr>"

definition example_Usercorn :: "Memory Usercorn" where
  "example_Usercorn =
     \<lparr> Unicorn = empty_Memory, exe = ''/tmp/hello'', loader = empty_Loader, interpLoader = None,
       base = 0, interpBase = 0, entry = 0, binEntry = 0, brk = 0x2000,
       TraceExec = True, TraceReg = False, traceMatching = True,
       ForceBase = 0, ForceInterpBase = 0, Demangle = False, LoadPrefix = '''',
       status = \<lparr> oldRegs = [] \<rparr>, blockloop = None, lastCode = 0, deadlock = 0 \<rparr>"

text \<open>
  The same state with the page from 0x4000 to 0x5000 mapped read-write above the brk,
  as a guest \<^verbatim>\<open>mmap\<close> at that address leaves it.
\<close>

definition mmapped_Usercorn :: "Memory Usercorn" where
  "mmapped_Usercorn =
     example_Usercorn \<lparr> Unicorn := empty_Memory \<lparr> mapped := [\<lparr> m_Addr = 0x4000, m_Size = 0x1000, m_Prot = 3 \<rparr>] \<rparr> \<rparr>"

subsection \<open>Symbolication\<close>

text \<open>
  The Go map \<^verbatim>\<open>nearest := make(map[uint64][]models.Symbol)\<close> as an association list
  with one entry per key: \<open>nearest_get\<close> is \<^verbatim>\<open>nearest[d]\<close> (\<^verbatim>\<open>nil\<close> for a missing key),
  \<open>nearest_append\<close> is \<^verbatim>\<open>nearest[d] = append(nearest[d], sym)\<close>, and the length of the
  list is \<^verbatim>\<open>len(nearest)\<close>.
\<close>

type_synonym nearest_map = "(uint64 \<times> Symbol list) list"

fun nearest_get :: "nearest_map \<Rightarrow> uint64 \<Rightarrow> Symbol list" where
  "nearest_get [] d = []"
| "nearest_get ((k, syms) # nearest) d = (if k = d then syms else nearest_get nearest d)"

fun nearest_append :: "nearest_map \<Rightarrow> uint64 \<Rightarrow> Symbol \<Rightarrow> nearest_map" where
  "nearest_append [] d symb = [(d, [symb])]"
| "nearest_append ((k, syms) # nearest) d symb =
     (if k = d then (k, syms @ [symb]) # nearest
      else (k, syms) # nearest_append nearest d symb)"

text \<open>
  The loop of the closure \<^verbatim>\<open>symbolicate\<close> inside \<^verbatim>\<open>Symbolicate\<close>. \<open>mn\<close> is the
  \<^verbatim>\<open>int64\<close> variable \<^verbatim>\<open>min\<close> and \<open>dist\<close> is \<^verbatim>\<open>int64(addr - sym.Start)\<close>, both as
  the integers they denote; \<^verbatim>\<open>uint64(dist)\<close> is \<open>word_of_int dist\<close>.
\<close>

fun symbolicate_loop :: "uint64 \<Rightarrow> Symbol list \<Rightarrow> nearest_map \<Rightarrow> int \<Rightarrow> nearest_map \<times> int" where
  "symbolicate_loop addr [] nearest mn = (nearest, mn)"
| "symbolicate_loop addr (symb # symbols) nearest mn =
     (if Start symb = 0 then symbolicate_loop addr symbols nearest mn
      else
        (let dist = sint (addr - Start symb) in
         if dist \<ge> 0 \<and> (Start symb + word_of_int dist \<le> End symb \<or> End symb = 0) \<and> Name symb \<noteq> ''''
         then symbolicate_loop addr symbols
                (nearest_append nearest (word_of_int dist) symb)
                (if dist < mn \<or> mn = - 1 then dist else mn)
         else symbolicate_loop addr symbols nearest mn))"

text \<open>
  The closure \<^verbatim>\<open>symbolicate\<close>. \<open>None\<close> is the run-time panic of \<^verbatim>\<open>nearest[uint64(min)][0]\<close>
  on an empty slice.
\<close>

definition symbolicate :: "uint64 \<Rightarrow> Symbol list \<Rightarrow> (Symbol \<times> uint64) option" where
  "symbolicate addr symbols =
     (if length symbols = 0 then Some (zero_Symbol, 0)
      else
        (let (nearest, mn) = symbolicate_loop addr symbols [] (- 1) in
         if length nearest > 0 then
           (case nearest_get nearest (word_of_int mn) of
              [] \<Rightarrow> None
            | symb # _ \<Rightarrow> Some (symb, word_of_int mn))
         else Some (zero_Symbol, 0)))"

text \<open>The verb \<^verbatim>\<open>%x\<close> of \<^verbatim>\<open>fmt.Sprintf\<close> on an unsigned number: lower-case hexadecimal, no leading zeros.\<close>

definition hex_digit :: "nat \<Rightarrow> char" where
  "hex_digit d = ''0123456789abcdef'' ! d"

function hex :: "nat \<Rightarrow> string" where
  "hex n = (if n < 16 then [hex_digit n] else hex (n div 16) @ [hex_digit (n mod 16)])"
  by pat_completeness auto
termination
  by (relation "measure (\<lambda>n. n)") auto

declare hex.simps [simp del]

text \<open>
  \<^verbatim>\<open>func (u *Usercorn) Symbolicate(addr uint64) (string, error)\<close>. The error result is
  always \<^verbatim>\<open>nil\<close>; \<open>None\<close> is a panic of the closure. \<open>models_Demangle\<close> is the
  demangler, an external collaborator.
\<close>

definition Symbolicate :: "(string \<Rightarrow> string) \<Rightarrow> 'm Usercorn \<Rightarrow> uint64 \<Rightarrow> string option" where
  "Symbolicate models_Demangle u addr =
     (let symbols = Symbols (loader u);
          interpSym = (case interpLoader u of None \<Rightarrow> [] | Some il \<Rightarrow> Symbols il)
      in case symbolicate (addr - base u) symbols of
           None \<Rightarrow> None
         | Some (symb, sdist) \<Rightarrow>
             (case symbolicate (addr - interpBase u) interpSym of
                None \<Rightarrow> None
              | Some (isym, idist) \<Rightarrow>
                  (let (symb, sdist) =
                         (if idist < sdist \<and> Name isym \<noteq> '''' \<or> Name symb = ''''
                          then (isym, idist) else (symb, sdist))
                   in if Name symb \<noteq> '''' then
                        (let name = (if Demangle u then models_Demangle (Name symb) else Name symb)
                         in if sdist > 0 then Some (name @ ''+0x'' @ hex (unat sdist))
                            else Some name)
                      else Some (Name symb))))"

text \<open>
  The selection rule in the spec's words (section 4.6), with the code's reading of
  "Start <= offset": the signed 64-bit difference \<open>offset - Start\<close> is not negative.
  A symbol is a candidate at an offset when its start is not 0, its name is not empty,
  it starts at or before the offset, and the offset is at most its end or the end is 0.
\<close>

definition candidate :: "uint64 \<Rightarrow> Symbol \<Rightarrow> bool" where
  "candidate off s \<longleftrightarrow>
     Start s \<noteq> 0 \<and> Name s \<noteq> '''' \<and> 0 \<le> sint (off - Start s) \<and> (off \<le> End s \<or> End s = 0)"

text \<open>
  \<open>s\<close> is the nearest symbol of the list at the offset: a candidate whose distance
  \<open>off - Start s\<close> no candidate undercuts, and the first of the list with that distance.
\<close>

definition nearest_symbol :: "uint64 \<Rightarrow> Symbol list \<Rightarrow> Symbol \<Rightarrow> bool" where
  "nearest_symbol off syms s \<longleftrightarrow>
     candidate off s \<and>
     (\<forall>c \<in> set syms. candidate off c \<longrightarrow> off - Start s \<le> off - Start c) \<and>
     (\<exists>pre post. syms = pre @ s # post \<and>
        (\<forall>c \<in> set pre. candidate off c \<longrightarrow> off - Start c \<noteq> off - Start s))"

text \<open>What \<^verbatim>\<open>Symbolicate\<close> prints for a chosen symbol and distance: nothing, the name, or name+0xN.\<close>

definition symbol_text :: "(string \<Rightarrow> string) \<Rightarrow> bool \<Rightarrow> Symbol \<times> uint64 \<Rightarrow> string" where
  "symbol_text models_Demangle demangle sd =
     (if Name (fst sd) = '''' then ''''
      else (if demangle then models_Demangle (Name (fst sd)) else Name (fst sd)) @
           (if snd sd = 0 then '''' else ''+0x'' @ hex (unat (snd sd))))"

text \<open>The symbols of the spec's example, and an emulator loaded with them at base 0x400000.\<close>

definition fg_symbols :: "Symbol list" where
  "fg_symbols = [\<lparr> Name = ''f'', Start = 100, End = 120 \<rparr>, \<lparr> Name = ''g'', Start = 200, End = 0 \<rparr>]"

definition fg_Usercorn :: "Memory Usercorn" where
  "fg_Usercorn = example_Usercorn \<lparr> loader := empty_Loader \<lparr> Symbols := fg_symbols \<rparr>, base := 0x400000 \<rparr>"

text \<open>The interpreter's symbols as \<^verbatim>\<open>Symbolicate\<close> reads them: none without an interpreter.\<close>

definition interp_symbols :: "'m Usercorn \<Rightarrow> Symbol list" where
  "interp_symbols u = (case interpLoader u of None \<Rightarrow> [] | Some il \<Rightarrow> Symbols il)"

text \<open>
  The candidate of one image: the nearest symbol with its distance when the image has
  a candidate at the offset, and the zero symbol with distance 0 when it has none.
\<close>

definition image_candidate :: "uint64 \<Rightarrow> Symbol list \<Rightarrow> Symbol \<times> uint64 \<Rightarrow> bool" where
  "image_candidate off syms r \<longleftrightarrow>
     (if \<exists>c \<in> set syms. candidate off c
      then nearest_symbol off syms (fst r) \<and> snd r = off - Start (fst r)
      else r = (zero_Symbol, 0))"

subsection \<open>Execution driver: the code hook and deadlock detection\<close>

text \<open>
  Modelled from the spec: \<^verbatim>\<open>models.Changes\<close> and the method \<^verbatim>\<open>Changes()\<close> of
  \<^verbatim>\<open>models.StatusDiff\<close> are not among the sources. The spec (section 3):
  "\<^verbatim>\<open>Changes()\<close> returns the register deltas since the previous call and updates
  the snapshot". \<open>regs\<close> are the register values the call reads from the engine; a
  delta is a register's index with its new value, for every register whose value is
  not the snapshot's.
\<close>

type_synonym Changes = "(nat \<times> uint64) list"

definition StatusDiff_Changes :: "StatusDiff \<Rightarrow> uint64 list \<Rightarrow> Changes \<times> StatusDiff" where
  "StatusDiff_Changes sd regs =
     (filter (\<lambda>(i, v). \<not> (i < length (oldRegs sd) \<and> oldRegs sd ! i = v)) (zip [0..<length regs] regs),
      sd\<lparr> oldRegs := regs \<rparr>)"

definition Changes_Count :: "Changes \<Rightarrow> nat" where
  "Changes_Count ch = length ch"

text \<open>
  What the code hook writes to stderr. The disassembly comes from the disassembler
  and the register deltas are printed by \<^verbatim>\<open>Changes.Print\<close>, both outside the sources:
  they are output items. The fatal line is text.
\<close>

datatype stderr_item = Disas uint64 nat | Newline | Print_changes Changes | Text string

text \<open>\<^verbatim>\<open>fmt.Fprintf(os.Stderr, "FATAL: deadlock detected at 0x%x%s\n", addr, sym)\<close>, after \<^verbatim>\<open>sym = " (" + sym + ")"\<close> for a non-empty symbol.\<close>

definition deadlock_message :: "uint64 \<Rightarrow> string \<Rightarrow> string" where
  "deadlock_message addr symb =
     ''FATAL: deadlock detected at 0x'' @ hex (unat addr) @
     (if symb \<noteq> '''' then '' ('' @ symb @ '')'' else '''') @ [CHR 0x0A]"

text \<open>
  The block of the code hook that prints the instruction, lines 369 to 383. \<open>None\<close> is
  a nil dereference: of \<^verbatim>\<open>u.blockloop\<close> in the condition, or of \<^verbatim>\<open>changes\<close>.
\<close>

definition print_disas :: "'m Usercorn \<Rightarrow> Changes option \<Rightarrow> uint64 \<Rightarrow> nat \<Rightarrow> stderr_item list option" where
  "print_disas u changes addr sz =
     (case (if TraceExec u \<and> blockloop u = None then Some True
            else (case blockloop u of None \<Rightarrow> None | Some l \<Rightarrow> Some (Loops l = 0))) of
        None \<Rightarrow> None
      | Some False \<Rightarrow> Some []
      | Some True \<Rightarrow>
          (if \<not> TraceReg u then Some [Disas addr sz, Newline]
           else (case changes of
                   None \<Rightarrow> None
                 | Some ch \<Rightarrow>
                     if Changes_Count ch = 0 then Some [Disas addr sz, Newline]
                     else Some [Disas addr sz, Print_changes ch])))"

text \<open>
  The callback that \<^verbatim>\<open>addHooks\<close> registers for \<^verbatim>\<open>uc.HOOK_CODE\<close>, lines 360 to 405.
  \<open>regs\<close> are the engine's register values at the call. The result is the output,
  whether \<^verbatim>\<open>u.Stop()\<close> was called, and the new state; \<open>None\<close> is a panic.
\<close>

definition hook_code ::
  "(string \<Rightarrow> string) \<Rightarrow> 'm Usercorn \<Rightarrow> uint64 list \<Rightarrow> uint64 \<Rightarrow> nat \<Rightarrow>
     ((stderr_item list \<times> bool) \<times> 'm Usercorn) option" where
  "hook_code models_Demangle u regs addr sz =
     (if \<not> traceMatching u then Some (([], False), u)
      else
        (let (changes, u1) =
               (if addr = lastCode u \<or> TraceReg u \<and> TraceExec u
                then (let (ch, sd) = StatusDiff_Changes (status u) regs
                      in (Some ch, u\<lparr> status := sd \<rparr>))
                else (None, u))
         in case print_disas u1 changes addr sz of
              None \<Rightarrow> None
            | Some out1 \<Rightarrow>
                (if addr = lastCode u1 then
                   (case changes of
                      None \<Rightarrow> None
                    | Some ch \<Rightarrow>
                        (let d1 = deadlock u1 + 1;
                             out2 = (if Changes_Count ch > 0 \<and> TraceReg u1 then [Print_changes ch] else []);
                             d2 = (if Changes_Count ch > 0 then 0 else d1)
                         in if d2 > 2 then
                              (case Symbolicate models_Demangle u1 addr of
                                 None \<Rightarrow> None
                               | Some symb \<Rightarrow>
                                   Some ((out1 @ out2 @ [Text (deadlock_message addr symb), Print_changes ch], True),
                                         u1\<lparr> deadlock := d2, lastCode := addr \<rparr>))
                            else Some ((out1 @ out2, False), u1\<lparr> deadlock := d2, lastCode := addr \<rparr>)))
                 else Some ((out1, False), u1\<lparr> deadlock := 0, lastCode := addr \<rparr>))))"

text \<open>\<^verbatim>\<open>if u.TraceExec { u.HookAdd(uc.HOOK_CODE, ...) }\<close>: without TraceExec no code hook runs.\<close>

definition on_code ::
  "(string \<Rightarrow> string) \<Rightarrow> 'm Usercorn \<Rightarrow> uint64 list \<Rightarrow> uint64 \<Rightarrow> nat \<Rightarrow>
     ((stderr_item list \<times> bool) \<times> 'm Usercorn) option" where
  "on_code models_Demangle u regs addr sz =
     (if TraceExec u then hook_code models_Demangle u regs addr sz else Some (([], False), u))"

text \<open>
  The engine runs instructions one after the other and calls the hook before each: an
  observation is the PC, the instruction's size and the register values at that
  moment. The run collects what each call printed and whether it called Stop.
\<close>

fun code_run ::
  "(string \<Rightarrow> string) \<Rightarrow> 'm Usercorn \<Rightarrow> (uint64 \<times> nat \<times> uint64 list) list \<Rightarrow>
     ((stderr_item list \<times> bool) list \<times> 'm Usercorn) option" where
  "code_run models_Demangle u [] = Some ([], u)"
| "code_run models_Demangle u ((addr, sz, regs) # obs) =
     (case on_code models_Demangle u regs addr sz of
        None \<Rightarrow> None
      | Some (r, u') \<Rightarrow>
          (case code_run models_Demangle u' obs of
             None \<Rightarrow> None
           | Some (rs, u'') \<Rightarrow> Some (r # rs, u'')))"

text \<open>
  A state for the examples: instruction tracing without register tracing, a register
  snapshot taken when the one register was 0, and the last instruction at 0x1000.
\<close>

definition stale_Usercorn :: "Memory Usercorn" where
  "stale_Usercorn = example_Usercorn \<lparr> status := \<lparr> oldRegs = [0] \<rparr>, lastCode := 0x1000 \<rparr>"

subsection \<open>Address-space builder: mapBinary\<close>

text \<open>
  The loop \<^verbatim>\<open>for _, seg := range merged\<close> of \<^verbatim>\<open>mapBinary\<close>, lines 504 to 518: the
  result is the load bias and the engine state, or the error that ends \<^verbatim>\<open>mapBinary\<close>.
\<close>

fun map_merged ::
  "'m Unicorn_ops \<Rightarrow> bool \<Rightarrow> Segment list \<Rightarrow> uint64 \<Rightarrow> 'm \<Rightarrow> error + (uint64 \<times> 'm)" where
  "map_merged U dynamic [] loadBias m = Inr (loadBias, m)"
| "map_merged U dynamic (seg # merged) loadBias m =
     (let sz = seg_End seg - seg_Start seg in
      if dynamic \<and> seg_Start seg = 0 \<and> loadBias = 0 then
        (case Unicorn_Mmap U m 0x1000000 sz of
           ((b, Some err), m') \<Rightarrow> Inl err
         | ((b, None), m') \<Rightarrow> map_merged U dynamic merged b m')
      else
        (let prot = (if seg_Prot seg = 0 then PROT_ALL else seg_Prot seg) in
         case Unicorn_MemMapProt U m (loadBias + seg_Start seg) (seg_End seg - seg_Start seg) prot of
           (Some err, m') \<Rightarrow> Inl err
         | (None, m') \<Rightarrow> map_merged U dynamic merged loadBias m'))"

text \<open>The loop that writes the raw segments' data, lines 520 to 528.\<close>

fun write_segments :: "'m Unicorn_ops \<Rightarrow> SegmentData list \<Rightarrow> uint64 \<Rightarrow> 'm \<Rightarrow> error + 'm" where
  "write_segments U [] loadBias m = Inr m"
| "write_segments U (seg # segments) loadBias m =
     (case Data seg of
        Inl err \<Rightarrow> Inl err
      | Inr data \<Rightarrow>
          (case Unicorn_MemWrite U m (loadBias + Addr seg) data of
             (Some err, m') \<Rightarrow> Inl err
           | (None, m') \<Rightarrow> write_segments U segments loadBias m'))"

text \<open>
  \<^verbatim>\<open>func (u *Usercorn) mapBinary(l models.Loader, isInterp bool) (interpBase, entry, base, realEntry uint64, err error)\<close>.
  \<open>LoadFileArch\<close> is \<^verbatim>\<open>loader.LoadFileArch\<close>, the external binary loader. The result
  is the error, or the four addresses with the new emulator state.
\<close>

function mapBinary ::
  "'m Unicorn_ops \<Rightarrow> hostfs \<Rightarrow> (string \<Rightarrow> string \<Rightarrow> error + Loader) \<Rightarrow> 'm Usercorn \<Rightarrow> Loader \<Rightarrow> bool \<Rightarrow>
     error + ((uint64 \<times> uint64 \<times> uint64 \<times> uint64) \<times> 'm Usercorn)" where
  "mapBinary U fs LoadFileArch u l isInterp =
     (case (case Type l of EXEC \<Rightarrow> Inr False | DYN \<Rightarrow> Inr True | Other_type t \<Rightarrow> Inl UnsupportedLoadType) of
        Inl err \<Rightarrow> Inl err
      | Inr dynamic \<Rightarrow>
          (case Segments l of
             Inl err \<Rightarrow> Inl err
           | Inr segments \<Rightarrow>
               (case map_merged U dynamic (merge_segments segments [])
                       (if isInterp then ForceInterpBase u else ForceBase u) (Unicorn u) of
                  Inl err \<Rightarrow> Inl err
                | Inr (loadBias, m) \<Rightarrow>
                    (case write_segments U segments loadBias m of
                       Inl err \<Rightarrow> Inl err
                     | Inr m' \<Rightarrow>
                         (if Interp l \<noteq> '''' \<and> \<not> isInterp then
                            (case LoadFileArch (PrefixPath fs (LoadPrefix u) (Interp l) True) (Arch l) of
                               Inl err \<Rightarrow> Inl err
                             | Inr bin \<Rightarrow>
                                 if Arch bin \<noteq> Arch l then Inl InterpArchMismatch
                                 else
                                   (case mapBinary U fs LoadFileArch
                                           (u\<lparr> Unicorn := m', interpLoader := Some bin \<rparr>) bin True of
                                      Inl err \<Rightarrow> Inl err
                                    | Inr ((_, _, interpBias, interpEntry), u') \<Rightarrow>
                                        Inr ((interpBias, interpEntry, loadBias, loadBias + Entry l), u')))
                          else Inr ((0, loadBias + Entry l, loadBias, loadBias + Entry l),
                                    u\<lparr> Unicorn := m' \<rparr>))))))"
  by pat_completeness auto
termination
  by (relation "measure (\<lambda>(U, fs, LoadFileArch, u, l, isInterp). if isInterp then 0 else 1)") auto

declare mapBinary.simps [simp del]

text \<open>
  Loaders for the examples: a static executable, a dynamic one that names the
  interpreter /lib/ld.so, and the interpreter; the external loader knows the
  interpreter only.
\<close>

definition static_Loader :: Loader where
  "static_Loader =
     \<lparr> Arch = ''x86_64'', OS = ''linux'', Type = EXEC, Entry = 0x401000,
       Segments = Inr [\<lparr> Addr = 0x400000, Size = 0x2000, Prot = 7, Data = Inr ''code'' \<rparr>],
       Interp = '''', Symbols = [] \<rparr>"

definition ld_Loader :: Loader where
  "ld_Loader =
     \<lparr> Arch = ''x86_64'', OS = ''linux'', Type = DYN, Entry = 0x1000,
       Segments = Inr [\<lparr> Addr = 0, Size = 0x2000, Prot = 5, Data = Inr ''ld'' \<rparr>],
       Interp = '''', Symbols = [] \<rparr>"

definition dynamic_Loader :: Loader where
  "dynamic_Loader = static_Loader \<lparr> Interp := ''/lib/ld.so'' \<rparr>"

definition example_LoadFileArch :: "string \<Rightarrow> string \<Rightarrow> error + Loader" where
  "example_LoadFileArch path arch =
     (if path = ''/lib/ld.so'' then Inr ld_Loader else Inl (External ''no such file''))"

subsection \<open>POSIX kernel: Readlink\<close>

definition UINT64_MAX :: uint64 where
  "UINT64_MAX = 0xFFFFFFFFFFFFFFFF"

text \<open>
  Modelled from the spec: \<^verbatim>\<open>co.Buf\<close> and its \<^verbatim>\<open>Pack\<close> are not among the sources. The
  spec (section 4.7): "\<^verbatim>\<open>Obuf.Pack(source)\<close> writes the serialized form into the
  guest"; a byte slice is written as it is, at the buffer's guest address.
\<close>

definition Buf_Pack :: "'m Unicorn_ops \<Rightarrow> 'm \<Rightarrow> uint64 \<Rightarrow> byte list \<Rightarrow> error option \<times> 'm" where
  "Buf_Pack U m buf bs = Unicorn_MemWrite U m buf bs"

text \<open>
  \<^verbatim>\<open>func (k *PosixKernel) Readlink(path string, buf co.Buf, size co.Len) uint64\<close>.
  \<open>os_Readlink\<close> is the host's \<^verbatim>\<open>os.Readlink\<close> and \<open>U_OS\<close> is \<^verbatim>\<open>k.U.OS()\<close>. The length
  \<^verbatim>\<open>co.Len\<close> is an unsigned 64-bit number and Go's \<^verbatim>\<open>int\<close> has 64 bits: the conversion
  \<^verbatim>\<open>int(size)\<close> keeps the bits and the subtraction wraps, so \<^verbatim>\<open>int(size)-1\<close> is
  \<open>sint (sz - 1)\<close> (for size \<open>2^63\<close> it is \<open>2^63 - 1\<close>). The slice \<^verbatim>\<open>name[:size-1]\<close>
  panics (\<open>None\<close>) when the unsigned \<open>size - 1\<close> is beyond the length of the name.
\<close>

definition PosixKernel_Readlink ::
  "'m Unicorn_ops \<Rightarrow> (string \<Rightarrow> error + string) \<Rightarrow> string \<Rightarrow> 'm Usercorn \<Rightarrow> string \<Rightarrow> uint64 \<Rightarrow> uint64 \<Rightarrow>
     (uint64 \<times> 'm Usercorn) option" where
  "PosixKernel_Readlink U os_Readlink U_OS u path buf sz =
     (case (if path = ''/proc/self/exe'' \<and> U_OS = ''linux'' then Inr (exe u) else os_Readlink path) of
        Inl err \<Rightarrow> Some (UINT64_MAX, u)
      | Inr name \<Rightarrow>
          (case (if int (length name) > sint (sz - 1)
                 then (if unat (sz - 1) \<le> length name then Some (take (unat (sz - 1)) name) else None)
                 else Some name) of
             None \<Rightarrow> None
           | Some name' \<Rightarrow>
               (case Buf_Pack U (Unicorn u) buf (name' @ [CHR 0x00]) of
                  (Some err, m) \<Rightarrow> Some (UINT64_MAX, u\<lparr> Unicorn := m \<rparr>)
                | (None, m) \<Rightarrow> Some (of_nat (length name'), u\<lparr> Unicorn := m \<rparr>))))"

text \<open>A host for the examples on which no path is a symbolic link (EINVAL).\<close>

definition no_links :: "string \<Rightarrow> error + string" where
  "no_links path = Inl (External ''invalid argument'')"

subsection \<open>POSIX kernel: Mmap\<close>

text \<open>
  The host calls of \<^verbatim>\<open>Mmap\<close> on a host state \<open>'h\<close>, each with the results the code
  keeps: \<^verbatim>\<open>syscall.Dup\<close> gives the new descriptor, \<^verbatim>\<open>f.Seek(off, 0)\<close> gives nothing
  that is kept, \<^verbatim>\<open>f.Read(tmp)\<close> on a buffer of the given size gives the bytes read,
  \<^verbatim>\<open>tmp[:n]\<close> (none when the read fails), and \<^verbatim>\<open>syscall.Close\<close> gives nothing that
  is kept. \<open>host_maxAlloc\<close> is the largest number of bytes Go's runtime allocates
  on the host.
\<close>

record 'h host_files =
  host_Dup :: "'h \<Rightarrow> int \<Rightarrow> int \<times> 'h"
  host_Seek :: "'h \<Rightarrow> int \<Rightarrow> int \<Rightarrow> 'h"
  host_Read :: "'h \<Rightarrow> int \<Rightarrow> uint64 \<Rightarrow> byte list \<times> 'h"
  host_Close :: "'h \<Rightarrow> int \<Rightarrow> 'h"
  host_maxAlloc :: nat

text \<open>
  \<^verbatim>\<open>make([]byte, size)\<close> with a \<^verbatim>\<open>uint64\<close> size panics (len out of range) when the
  size does not fit Go's \<^verbatim>\<open>int\<close> or is above the largest allocation.
\<close>

definition make_panics :: "'h host_files \<Rightarrow> uint64 \<Rightarrow> bool" where
  "make_panics H sz \<longleftrightarrow> 2 ^ 63 \<le> unat sz \<or> host_maxAlloc H < unat sz"

text \<open>
  \<^verbatim>\<open>func (k *PosixKernel) Mmap(addrHint, size uint64, prot, flags int, fd co.Fd, off co.Off) uint64\<close>,
  on the emulator state and the host state. The result is \<open>None\<close> when the call
  panics at \<^verbatim>\<open>make([]byte, size)\<close>, which it reaches with a descriptor above 0, after
  the facade's \<^verbatim>\<open>Mmap\<close> and the host's \<^verbatim>\<open>Dup\<close> and \<^verbatim>\<open>Seek\<close>.
\<close>

definition PosixKernel_Mmap ::
  "'m Unicorn_ops \<Rightarrow> 'h host_files \<Rightarrow> 'm Usercorn \<times> 'h \<Rightarrow> uint64 \<Rightarrow> uint64 \<Rightarrow> int \<Rightarrow> int \<Rightarrow> int \<Rightarrow> int \<Rightarrow>
     (uint64 \<times> ('m Usercorn \<times> 'h)) option" where
  "PosixKernel_Mmap U H s addrHint sz prot flags fd off =
     (let ((addr, err), m) = Unicorn_Mmap U (Unicorn (fst s)) addrHint sz in
      if fd > 0 then
        (let (fd2, h1) = host_Dup H (snd s) fd;
             h2 = host_Seek H h1 fd2 off
         in if make_panics H sz then None
            else (let (data, h3) = host_Read H h2 fd2 sz;
                      (werr, m') = Unicorn_MemWrite U m addr data;
                      h4 = host_Close H h3 fd2
                  in Some (addr, ((fst s)\<lparr> Unicorn := m' \<rparr>, h4))))
      else Some (addr, ((fst s)\<lparr> Unicorn := m \<rparr>, snd s)))"

text \<open>\<^verbatim>\<open>func (k *PosixKernel) Mmap2(...)\<close> calls \<^verbatim>\<open>k.Mmap\<close> with its own arguments.\<close>

definition PosixKernel_Mmap2 ::
  "'m Unicorn_ops \<Rightarrow> 'h host_files \<Rightarrow> 'm Usercorn \<times> 'h \<Rightarrow> uint64 \<Rightarrow> uint64 \<Rightarrow> int \<Rightarrow> int \<Rightarrow> int \<Rightarrow> int \<Rightarrow>
     (uint64 \<times> ('m Usercorn \<times> 'h)) option" where
  "PosixKernel_Mmap2 U H s addrHint sz prot flags fd off =
     PosixKernel_Mmap U H s addrHint sz prot flags fd off"

text \<open>
  Hosts for the examples, with the open files as the state: one where descriptor 5 is a
  file holding the bytes "data", and one where every read fails. The largest allocation
  is that of Go's runtime on 64-bit Linux.
\<close>

definition file_host :: "(int \<times> string) list host_files" where
  "file_host =
     \<lparr> host_Dup = (\<lambda>h fd. case map_of h fd of None \<Rightarrow> (- 1, h) | Some bs \<Rightarrow> (100, (100, bs) # h)),
       host_Seek = (\<lambda>h fd off. h),
       host_Read = (\<lambda>h fd n. case map_of h fd of None \<Rightarrow> ([], h) | Some bs \<Rightarrow> (take (unat n) bs, h)),
       host_Close = (\<lambda>h fd. filter (\<lambda>e. fst e \<noteq> fd) h),
       host_maxAlloc = 2 ^ 48 \<rparr>"

definition failing_host :: "(int \<times> string) list host_files" where
  "failing_host = file_host \<lparr> host_Read := (\<lambda>h fd n. ([], h)) \<rparr>"

section \<open>Theorems\<close>

subsection \<open>Close\<close>

text \<open>
  C9. Close of descriptor 2 returns 0 and does not call the host's close: the host
  state is returned as it was, whatever the host's close would do. For every other
  descriptor Close calls the host's close once and returns the errno conversion of
  its result.
\<close>

theorem Close_stderr_kept:
  "PosixKernel_Close syscall_Close h 2 = (0, h) \<and>
   (fd \<noteq> 2 \<longrightarrow>
      PosixKernel_Close syscall_Close h fd =
        (Errno (fst (syscall_Close h fd)), snd (syscall_Close h fd)))"
  by (simp add: PosixKernel_Close_def split: prod.split)

theorem Close_stderr_kept_witness:
  "PosixKernel_Close fdtable_close [0, 1, 2, 3] 2 = (0, [0, 1, 2, 3]) \<and>
   (3::int) \<noteq> 2 \<and>
   PosixKernel_Close fdtable_close [0, 1, 2, 3] 3 = (0, [0, 1, 2]) \<and>
   PosixKernel_Close fdtable_close [0, 1, 2] 3 = (- 9, [0, 1, 2])"
  using Close_stderr_kept [of fdtable_close "[0, 1, 2, 3]" 3]
    Close_stderr_kept [of fdtable_close "[0, 1, 2]" 3]
  by (simp add: fdtable_close_def)

subsection \<open>PrefixPath\<close>

text \<open>
  C6, as the claim states it: with a non-empty LoadPrefix and an absolute path the
  joined path is returned exactly when force is true or the joined path exists on the
  host. It fails: the code takes the joined path to exist unless os.Stat reports
  ENOENT. On a host where /root/lib is a regular file, os.Stat of /root/lib/x.so fails
  with ENOTDIR: the joined path does not exist and force is false, yet PrefixPath
  returns the joined path and not the original one.
\<close>

theorem PrefixPath_missing_counterexample:
  "filepath_IsAbs (list_fs [''/root/lib'']) ''/lib/x.so'' \<and>
   filepath_Join (list_fs [''/root/lib'']) ''/root'' ''/lib/x.so'' = ''/root/lib/x.so'' \<and>
   os_Stat (list_fs [''/root/lib'']) ''/root/lib/x.so'' = Some ENOTDIR \<and>
   \<not> exists_on_host (list_fs [''/root/lib'']) ''/root/lib/x.so'' \<and>
   PrefixPath (list_fs [''/root/lib'']) ''/root'' ''/lib/x.so'' False = ''/root/lib/x.so'' \<and>
   PrefixPath (list_fs [''/root/lib'']) ''/root'' ''/lib/x.so'' False \<noteq> ''/lib/x.so''"
  by (simp add: PrefixPath_def list_fs_def exists_on_host_def under_file_def os_IsNotExist_def
      ENOENT_def ENOTDIR_def)

text \<open>
  C6, amended. With a non-empty LoadPrefix and an absolute path, PrefixPath returns the
  join of LoadPrefix and the path exactly when force is true or os.Stat of the joined
  path does not fail with ENOENT: so when the joined path exists, and also when os.Stat
  fails for another reason (ENOTDIR, EACCES). It returns the original path when force
  is false and os.Stat reports ENOENT. A relative path, and any path under an empty
  LoadPrefix, is returned unchanged.
\<close>

theorem PrefixPath_rewrite:
  "(filepath_IsAbs fs path \<and> prefix \<noteq> '''' \<longrightarrow>
      PrefixPath fs prefix path force =
        (if force \<or> os_Stat fs (filepath_Join fs prefix path) \<noteq> Some ENOENT
         then filepath_Join fs prefix path else path)) \<and>
   (filepath_IsAbs fs path \<and> prefix \<noteq> '''' \<and> exists_on_host fs (filepath_Join fs prefix path) \<longrightarrow>
      PrefixPath fs prefix path force = filepath_Join fs prefix path) \<and>
   (filepath_IsAbs fs path \<and> prefix \<noteq> '''' \<and> \<not> force \<and>
    os_Stat fs (filepath_Join fs prefix path) = Some ENOENT \<longrightarrow>
      PrefixPath fs prefix path force = path) \<and>
   (\<not> filepath_IsAbs fs path \<or> prefix = '''' \<longrightarrow> PrefixPath fs prefix path force = path)"
  by (simp add: PrefixPath_def Let_def os_IsNotExist_def exists_on_host_def)

theorem PrefixPath_rewrite_witness:
  "PrefixPath (list_fs [''/root/lib/x.so'']) ''/root'' ''/lib/x.so'' False = ''/root/lib/x.so'' \<and>
   PrefixPath (list_fs []) ''/root'' ''/lib/x.so'' True = ''/root/lib/x.so'' \<and>
   PrefixPath (list_fs []) ''/root'' ''/lib/x.so'' False = ''/lib/x.so'' \<and>
   PrefixPath (list_fs [''/root/lib'']) ''/root'' ''/lib/x.so'' False = ''/root/lib/x.so'' \<and>
   PrefixPath (list_fs [''/root/lib/x.so'']) ''/root'' ''lib/x.so'' True = ''lib/x.so'' \<and>
   PrefixPath (list_fs [''/root/lib/x.so'']) '''' ''/lib/x.so'' True = ''/lib/x.so''"
  using PrefixPath_rewrite [of "list_fs [''/root/lib/x.so'']" "''/lib/x.so''" "''/root''" False]
    PrefixPath_rewrite [of "list_fs []" "''/lib/x.so''" "''/root''" True]
    PrefixPath_rewrite [of "list_fs []" "''/lib/x.so''" "''/root''" False]
    PrefixPath_rewrite [of "list_fs [''/root/lib'']" "''/lib/x.so''" "''/root''" False]
    PrefixPath_rewrite [of "list_fs [''/root/lib/x.so'']" "''lib/x.so''" "''/root''" True]
    PrefixPath_rewrite [of "list_fs [''/root/lib/x.so'']" "''/lib/x.so''" "''''" True]
  by (simp add: list_fs_def exists_on_host_def under_file_def ENOENT_def ENOTDIR_def)

subsection \<open>Syscall dispatch\<close>





subsection \<open>Merging segments\<close>

text \<open>
  C1. The merge step is to leave page-aligned spans that are pairwise disjoint and
  that merging again does not change. On the raw segments [0x1000,0x2000),
  [0x3000,0x4000) and [0x1000,0x4000) it does neither: the third segment is absorbed
  by the first span, which then reaches over the second, and the loop never looks at
  the second again. The two spans it leaves overlap, and merging them again gives a
  single span. The spec's own example, [0x1000,0x3000) R and [0x2000,0x4000) W, does
  merge into [0x1000,0x4000) R|W.
\<close>

theorem merge_segments_leaves_overlap:
  "merge_segments
     [raw_segment 0x1000 0x1000 PROT_READ, raw_segment 0x3000 0x1000 PROT_READ,
      raw_segment 0x1000 0x3000 PROT_WRITE] [] =
     [\<lparr> seg_Start = 0x1000, seg_End = 0x4000, seg_Prot = 3 \<rparr>,
      \<lparr> seg_Start = 0x3000, seg_End = 0x4000, seg_Prot = 1 \<rparr>] \<and>
   Overlaps \<lparr> seg_Start = 0x1000, seg_End = 0x4000, seg_Prot = 3 \<rparr>
            \<lparr> seg_Start = 0x3000, seg_End = 0x4000, seg_Prot = 1 \<rparr> \<and>
   merge_segments
     (map as_raw [\<lparr> seg_Start = 0x1000, seg_End = 0x4000, seg_Prot = 3 \<rparr>,
                  \<lparr> seg_Start = 0x3000, seg_End = 0x4000, seg_Prot = 1 \<rparr>]) [] =
     [\<lparr> seg_Start = 0x1000, seg_End = 0x4000, seg_Prot = 3 \<rparr>] \<and>
   merge_segments
     [raw_segment 0x1000 0x2000 PROT_READ, raw_segment 0x2000 0x2000 PROT_WRITE] [] =
     [\<lparr> seg_Start = 0x1000, seg_End = 0x4000, seg_Prot = 3 \<rparr>]"
  by (simp add: raw_segment_def as_raw_def align_def UC_MEM_ALIGN_def Overlaps_def Merge_def
      PROT_READ_def PROT_WRITE_def)

subsection \<open>Brk\<close>

lemma Brk_brk_cases:
  "brk (snd (Brk U u a)) = brk u \<or> (0 < a \<and> brk (snd (Brk U u a)) = a)"
  by (auto simp: Brk_def split: prod.split option.split)

lemma Brk_step_mono:
  "a = 0 \<or> brk u \<le> a \<Longrightarrow> brk u \<le> brk (snd (Brk U u a))"
  using Brk_brk_cases [of U u a] by auto

lemma Brk_calls_mono:
  "never_below U u as \<Longrightarrow> brk u \<le> brk (Brk_calls U u as)"
proof (induction as arbitrary: u)
  case Nil
  then show ?case by simp
next
  case (Cons a as)
  have "brk u \<le> brk (snd (Brk U u a))"
    using Cons.prems by (intro Brk_step_mono) simp
  also have "\<dots> \<le> brk (Brk_calls U (snd (Brk U u a)) as)"
    using Cons.prems by (intro Cons.IH) simp
  finally show ?case by simp
qed

text \<open>
  A call with an address below the brk asks for the range from brk of size
  \<open>a - brk\<close>, whose end wraps around to \<open>a\<close>: a facade that refuses such ranges leaves
  the brk where it is.
\<close>

lemma Brk_step_refusing:
  assumes "refuses_wrapped U"
  shows "brk u \<le> brk (snd (Brk U u a))"
proof (cases "a < brk u")
  case True
  then have "brk u + (a - brk u) < brk u"
    by simp
  then have "fst (Unicorn_MemMapProt U (Unicorn u) (brk u) (a - brk u) (PROT_READ OR PROT_WRITE)) \<noteq> None"
    using assms unfolding refuses_wrapped_def by blast
  then have "brk (snd (Brk U u a)) = brk u"
    by (auto simp: Brk_def split: prod.split option.split)
  then show ?thesis
    by simp
next
  case False
  then have "brk u \<le> a"
    by (simp only: not_less)
  then have "a = 0 \<or> brk u \<le> a"
    by (rule disjI2)
  then show ?thesis
    by (rule Brk_step_mono)
qed

lemma Brk_calls_refusing:
  "refuses_wrapped U \<Longrightarrow> brk u \<le> brk (Brk_calls U u as)"
proof (induction as arbitrary: u)
  case Nil
  then show ?case by simp
next
  case (Cons a as)
  have "brk u \<le> brk (snd (Brk U u a))"
    using Cons.prems by (rule Brk_step_refusing)
  also have "\<dots> \<le> brk (Brk_calls U (snd (Brk U u a)) as)"
    using Cons.prems by (rule Cons.IH)
  finally show ?case by simp
qed

lemma strict_ops_simps:
  "Unicorn_Mmap (strict_ops place) = strict_Mmap place"
  "Unicorn_MemMapProt (strict_ops place) = strict_MemMapProt"
  "Unicorn_MemWrite (strict_ops place) = strict_MemWrite"
  by (simp_all add: strict_ops_def)

lemma strict_ops_refuses_wrapped: "refuses_wrapped (strict_ops place)"
  by (simp add: refuses_wrapped_def strict_ops_def strict_MemMapProt_def)

text \<open>
  C4, as the claim states it: Brk(a) with a at or above the current brk maps the range
  from the brk to a and sets brk to a, returning the new value. It fails where the
  engine refuses the mapping: with the page from 0x4000 to 0x5000 already mapped and
  brk = 0x2000, the range from 0x2000 to 0x5000 overlaps it, so Brk(0x5000) maps
  nothing, leaves brk at 0x2000 and returns 0x2000 with the engine's error.
\<close>

theorem Brk_refused_counterexample:
  "brk mmapped_Usercorn = 0x2000 \<and> brk mmapped_Usercorn \<le> 0x5000 \<and>
   Brk (strict_ops place_at_hint) mmapped_Usercorn 0x5000 =
     ((0x2000, Some (External ''invalid mapping'')), mmapped_Usercorn) \<and>
   brk (snd (Brk (strict_ops place_at_hint) mmapped_Usercorn 0x5000)) \<noteq> 0x5000"
  by (simp add: Brk_def strict_ops_simps strict_MemMapProt_def ranges_overlap_def
      mmapped_Usercorn_def example_Usercorn_def empty_Memory_def)

text \<open>
  C4, amended. Brk(0) returns the current brk value and changes nothing. Brk(a) with
  a > 0 asks the facade to map the range from the current brk to a as read-write; when
  that succeeds brk becomes a and a is returned, and when the facade refuses, brk keeps
  its value, which is returned with the error. So on a facade that refuses a range
  whose end wraps around the address space, the brk value never decreases across any
  sequence of Brk calls; and on any facade it never decreases across a sequence whose
  arguments are each 0 or at least the brk value at the call.
\<close>

theorem Brk_advances:
  "Brk U u 0 = ((brk u, None), u) \<and>
   (0 < a \<and> Unicorn_MemMapProt U (Unicorn u) (brk u) (a - brk u) (PROT_READ OR PROT_WRITE) = (None, m) \<longrightarrow>
      Brk U u a = ((a, None), u\<lparr> Unicorn := m, brk := a \<rparr>)) \<and>
   (0 < a \<and> Unicorn_MemMapProt U (Unicorn u) (brk u) (a - brk u) (PROT_READ OR PROT_WRITE) = (Some err, m) \<longrightarrow>
      Brk U u a = ((brk u, Some err), u\<lparr> Unicorn := m \<rparr>)) \<and>
   (refuses_wrapped U \<longrightarrow> brk u \<le> brk (Brk_calls U u as)) \<and>
   (never_below U u as \<longrightarrow> brk u \<le> brk (Brk_calls U u as))"
  by (simp add: Brk_def Brk_calls_mono Brk_calls_refusing)

theorem Brk_advances_witness:
  "refuses_wrapped (strict_ops place_at_hint) \<and>
   Brk (strict_ops place_at_hint) example_Usercorn 0 = ((0x2000, None), example_Usercorn) \<and>
   fst (Brk (strict_ops place_at_hint) example_Usercorn 0x5000) = (0x5000, None) \<and>
   mapped (Unicorn (snd (Brk (strict_ops place_at_hint) example_Usercorn 0x5000))) =
     [\<lparr> m_Addr = 0x2000, m_Size = 0x3000, m_Prot = 3 \<rparr>] \<and>
   Brk (strict_ops place_at_hint) mmapped_Usercorn 0x5000 =
     ((0x2000, Some (External ''invalid mapping'')), mmapped_Usercorn) \<and>
   brk (Brk_calls (strict_ops place_at_hint) example_Usercorn [0x5000, 0x1000, 0, 0x9000]) = 0x9000 \<and>
   never_below (spec_ops place_at_hint) example_Usercorn [0x5000, 0, 0x5000, 0x9000] \<and>
   brk (Brk_calls (spec_ops place_at_hint) example_Usercorn [0x5000, 0, 0x5000, 0x9000]) = 0x9000"
  using Brk_advances [where U = "strict_ops place_at_hint" and u = example_Usercorn and a = "0x5000"
      and m = "snd (spec_MemMapProt empty_Memory 0x2000 0x3000 3)"
      and as = "[0x5000, 0x1000, 0, 0x9000]"]
    Brk_advances [where U = "strict_ops place_at_hint" and u = mmapped_Usercorn and a = "0x5000"
      and m = "Unicorn mmapped_Usercorn" and err = "External ''invalid mapping''" and as = "[]"]
    Brk_advances [where U = "spec_ops place_at_hint" and u = example_Usercorn and a = "0x5000"
      and m = "snd (spec_MemMapProt empty_Memory 0x2000 0x3000 3)"
      and as = "[0x5000, 0, 0x5000, 0x9000]"]
    strict_ops_refuses_wrapped [of place_at_hint]
  by (simp add: Brk_def strict_ops_simps strict_MemMapProt_def ranges_overlap_def
      spec_ops_def spec_MemMapProt_def mmapped_Usercorn_def example_Usercorn_def
      empty_Memory_def PROT_READ_def PROT_WRITE_def)

subsection \<open>Symbolication\<close>

lemma sint_nonneg_uint: "0 \<le> sint (w :: uint64) \<Longrightarrow> uint w = sint w"
  using uint_sint [of w] sint_lt [of w] by (simp add: take_bit_int_eq_self)

lemma sint_le_word_le: "0 \<le> sint (a :: uint64) \<Longrightarrow> sint a \<le> sint b \<Longrightarrow> a \<le> b"
  using sint_nonneg_uint [of a] sint_nonneg_uint [of b] by (simp add: word_le_def)

lemma nearest_get_append:
  "nearest_get (nearest_append n d' s) d = (if d = d' then nearest_get n d @ [s] else nearest_get n d)"
  by (induction n d' s rule: nearest_append.induct) auto

lemma nearest_append_nonempty: "nearest_append n d s \<noteq> []"
  by (cases n) (auto split: if_splits)

lemma loop_step_candidate:
  "candidate off c \<Longrightarrow>
   symbolicate_loop off (c # syms) n m =
     symbolicate_loop off syms (nearest_append n (off - Start c) c)
       (if sint (off - Start c) < m \<or> m = - 1 then sint (off - Start c) else m)"
  by (simp add: candidate_def Let_def)

lemma loop_step_other:
  "\<not> candidate off c \<Longrightarrow> symbolicate_loop off (c # syms) n m = symbolicate_loop off syms n m"
  by (auto simp: candidate_def Let_def)


lemma loop_fst_get:
  "nearest_get (fst (symbolicate_loop off syms n m)) d =
     nearest_get n d @ filter (\<lambda>c. candidate off c \<and> off - Start c = d) syms"
proof (induction syms arbitrary: n m)
  case Nil
  then show ?case by simp
next
  case (Cons c syms)
  show ?case
  proof (cases "candidate off c")
    case True
    show ?thesis
      unfolding loop_step_candidate [OF True] Cons.IH
      using True by (auto simp: nearest_get_append)
  next
    case False
    show ?thesis
      unfolding loop_step_other [OF False] Cons.IH using False by simp
  qed
qed

lemma loop_fst_empty:
  "fst (symbolicate_loop off syms n m) = [] \<longleftrightarrow> n = [] \<and> (\<forall>c \<in> set syms. \<not> candidate off c)"
proof (induction syms arbitrary: n m)
  case Nil
  then show ?case by simp
next
  case (Cons c syms)
  show ?case
  proof (cases "candidate off c")
    case True
    show ?thesis
      unfolding loop_step_candidate [OF True] Cons.IH
      using True by (auto simp: nearest_append_nonempty)
  next
    case False
    show ?thesis
      unfolding loop_step_other [OF False] Cons.IH using False by simp
  qed
qed


lemma loop_snd:
  "- 1 \<le> m \<Longrightarrow>
   (m \<noteq> - 1 \<longrightarrow> snd (symbolicate_loop off syms n m) \<noteq> - 1 \<and> snd (symbolicate_loop off syms n m) \<le> m) \<and>
   (\<forall>c \<in> set syms. candidate off c \<longrightarrow>
      0 \<le> snd (symbolicate_loop off syms n m) \<and> snd (symbolicate_loop off syms n m) \<le> sint (off - Start c)) \<and>
   (snd (symbolicate_loop off syms n m) = m \<or>
      (\<exists>c \<in> set syms. candidate off c \<and> snd (symbolicate_loop off syms n m) = sint (off - Start c)))"
proof (induction syms arbitrary: n m)
  case Nil
  then show ?case by simp
next
  case (Cons c syms)
  show ?case
  proof (cases "candidate off c")
    case True
    define d where "d = sint (off - Start c)"
    define m' where "m' = (if d < m \<or> m = - 1 then d else m)"
    define n' where "n' = nearest_append n (off - Start c) c"
    define r where "r = snd (symbolicate_loop off syms n' m')"
    have d0: "0 \<le> d"
      using True by (simp add: candidate_def d_def)
    have m': "- 1 \<le> m'" "m' \<noteq> - 1" "m' \<le> d" "m \<noteq> - 1 \<longrightarrow> m' \<le> m" "m' = m \<or> m' = d" "0 \<le> m'"
      using d0 Cons.prems by (auto simp: m'_def)
    have step: "snd (symbolicate_loop off (c # syms) n m) = r"
      unfolding loop_step_candidate [OF True] m'_def n'_def r_def d_def by simp
    have ih1: "r \<noteq> - 1" "r \<le> m'"
      and ih2: "\<forall>c \<in> set syms. candidate off c \<longrightarrow> 0 \<le> r \<and> r \<le> sint (off - Start c)"
      and ih3: "r = m' \<or> (\<exists>c \<in> set syms. candidate off c \<and> r = sint (off - Start c))"
      using Cons.IH [OF m'(1), of n'] m'(2) unfolding r_def by blast+
    have r0: "0 \<le> r"
      using ih3 ih2 m'(6) by auto
    have a: "m \<noteq> - 1 \<longrightarrow> r \<noteq> - 1 \<and> r \<le> m"
      using ih1 m'(4) by auto
    have b: "\<forall>x \<in> set (c # syms). candidate off x \<longrightarrow> 0 \<le> r \<and> r \<le> sint (off - Start x)"
      using ih2 r0 ih1(2) m'(3) by (auto simp: d_def)
    have c: "r = m \<or> (\<exists>x \<in> set (c # syms). candidate off x \<and> r = sint (off - Start x))"
      using ih3 m'(5) True by (auto simp: d_def)
    show ?thesis
      unfolding step using a b c by blast
  next
    case False
    from Cons.IH [OF Cons.prems, of n] False show ?thesis
      unfolding loop_step_other [OF False] by auto
  qed
qed


lemma symbolicate_no_candidate:
  assumes "\<forall>c \<in> set syms. \<not> candidate off c"
  shows "symbolicate off syms = Some (zero_Symbol, 0)"
proof -
  have "fst (symbolicate_loop off syms [] (- 1)) = []"
    using assms by (simp add: loop_fst_empty)
  then obtain mn where "symbolicate_loop off syms [] (- 1) = ([], mn)"
    by (cases "symbolicate_loop off syms [] (- 1)") auto
  then show ?thesis
    by (simp add: symbolicate_def)
qed

lemma symbolicate_candidate:
  assumes "\<exists>c \<in> set syms. candidate off c"
  shows "\<exists>s. nearest_symbol off syms s \<and> symbolicate off syms = Some (s, off - Start s)"
proof -
  define nearest where "nearest = fst (symbolicate_loop off syms [] (- 1))"
  define mn where "mn = snd (symbolicate_loop off syms [] (- 1))"
  have loop: "symbolicate_loop off syms [] (- 1) = (nearest, mn)"
    by (simp add: nearest_def mn_def)
  have ne: "nearest \<noteq> []"
    using assms unfolding nearest_def by (simp add: loop_fst_empty)
  have syms_ne: "syms \<noteq> []"
    using assms by auto
  have low: "\<forall>c \<in> set syms. candidate off c \<longrightarrow> 0 \<le> mn \<and> mn \<le> sint (off - Start c)"
    and hit: "mn = - 1 \<or> (\<exists>c \<in> set syms. candidate off c \<and> mn = sint (off - Start c))"
    using loop_snd [of "- 1" off syms "[]"] unfolding mn_def by auto
  have "0 \<le> mn"
    using low assms by blast
  with hit obtain c0 where c0: "c0 \<in> set syms" "candidate off c0" "mn = sint (off - Start c0)"
    by auto
  define d where "d = off - Start c0"
  have mn_d: "word_of_int mn = d" "sint d = mn"
    by (simp_all add: c0(3) d_def)
  define F where "F = filter (\<lambda>c. candidate off c \<and> off - Start c = d) syms"
  have get: "nearest_get nearest d = F"
    unfolding nearest_def F_def by (simp add: loop_fst_get)
  have "c0 \<in> set F"
    using c0 by (simp add: F_def d_def)
  then obtain s rest where F: "F = s # rest"
    by (cases F) auto
  then obtain pre post where split: "syms = pre @ s # post"
    and pre: "\<forall>u \<in> set pre. \<not> (candidate off u \<and> off - Start u = d)"
    and s: "candidate off s" "off - Start s = d"
    unfolding F_def by (auto simp: filter_eq_Cons_iff)
  have res: "symbolicate off syms = Some (s, off - Start s)"
    using syms_ne ne by (simp add: symbolicate_def loop mn_d get F s(2))
  have least: "\<forall>c \<in> set syms. candidate off c \<longrightarrow> off - Start s \<le> off - Start c"
  proof (intro ballI impI)
    fix c assume "c \<in> set syms" "candidate off c"
    then have "sint d \<le> sint (off - Start c)" "0 \<le> sint d"
      using low mn_d(2) by auto
    then show "off - Start s \<le> off - Start c"
      unfolding s(2) by (intro sint_le_word_le)
  qed
  have "nearest_symbol off syms s"
    unfolding nearest_symbol_def using s(1) least split pre s(2) by blast
  with res show ?thesis by blast
qed

lemma sint_nonneg_iff: "0 \<le> sint (w :: uint64) \<longleftrightarrow> uint w < 2 ^ 63"
proof
  assume "0 \<le> sint w"
  then have "uint w = sint w" by (rule sint_nonneg_uint)
  then show "uint w < 2 ^ 63" using sint_lt [of w] by simp
next
  assume "uint w < 2 ^ 63"
  then have "signed_take_bit 63 (uint w) = uint w"
    by (intro signed_take_bit_int_eq_self) (auto intro: order_trans [of _ 0])
  then show "0 \<le> sint w" by (simp add: sint_uint)
qed

lemma signed_distance_nonneg:
  assumes "uint (off :: uint64) < 2 ^ 63" "uint (st :: uint64) < 2 ^ 63"
  shows "0 \<le> sint (off - st) \<longleftrightarrow> st \<le> off"
proof (cases "uint st \<le> uint off")
  case True
  then have "uint (off - st) = uint off - uint st" by (simp add: uint_sub_if')
  then have "uint (off - st) < 2 ^ 63" using assms(1) uint_ge_0 [of st] by linarith
  then show ?thesis using True by (simp add: sint_nonneg_iff word_le_def)
next
  case False
  then have "uint (off - st) = uint off - uint st + 2 ^ 64" by (simp add: uint_sub_if')
  moreover have "(2 :: int) ^ 64 = 2 ^ 63 + 2 ^ 63" by simp
  ultimately have "\<not> uint (off - st) < 2 ^ 63" using assms(2) uint_ge_0 [of off] by linarith
  then show ?thesis using False by (simp add: sint_nonneg_iff word_le_def)
qed

lemma symbolicate_image_candidate:
  "\<exists>r. symbolicate off syms = Some r \<and> image_candidate off syms r"
proof (cases "\<exists>c \<in> set syms. candidate off c")
  case True
  from symbolicate_candidate [OF True] show ?thesis
    using True by (auto simp: image_candidate_def)
next
  case False
  then have "symbolicate off syms = Some (zero_Symbol, 0)"
    by (intro symbolicate_no_candidate) simp
  then show ?thesis using False by (simp add: image_candidate_def)
qed

lemma Symbolicate_text:
  assumes "symbolicate (addr - base u) (Symbols (loader u)) = Some main"
    and "symbolicate (addr - interpBase u) (interp_symbols u) = Some interp"
  shows "Symbolicate dm u addr =
     Some (symbol_text dm (Demangle u)
       (if snd interp < snd main \<and> Name (fst interp) \<noteq> '''' \<or> Name (fst main) = ''''
        then interp else main))"
proof -
  obtain s sd i idist where ms: "main = (s, sd)" and ip: "interp = (i, idist)"
    by (cases main, cases interp) auto
  have pos: "\<And>w :: uint64. (0 < w) = (w \<noteq> 0)"
    by (simp add: word_greater_zero_iff)
  show ?thesis
    using assms unfolding ms ip interp_symbols_def
    by (simp add: Symbolicate_def symbol_text_def pos Let_def)
qed

lemma fg_symbolicate:
  "symbolicate 110 fg_symbols = Some (\<lparr> Name = ''f'', Start = 100, End = 120 \<rparr>, 10)"
  "symbolicate 200 fg_symbols = Some (\<lparr> Name = ''g'', Start = 200, End = 0 \<rparr>, 0)"
  "symbolicate 10000 fg_symbols = Some (\<lparr> Name = ''g'', Start = 200, End = 0 \<rparr>, 9800)"
  by (simp_all add: symbolicate_def fg_symbols_def)

lemma symbolicate_Nil: "symbolicate x [] = Some (zero_Symbol, 0)"
  by (simp add: symbolicate_def)

lemma hex_examples: "hex 10 = ''a''" "hex 9800 = ''2648''"
  by (simp_all add: hex.simps hex_digit_def)

text \<open>
  C2, as the claim states it: with the symbols f = [100,120] and g = [200, open end],
  pc = base + 10000 is to give the empty string. It gives g+0x2648: g has end 0, so it
  is a candidate at every offset from 200 on, as the claim's own rule says.
\<close>

theorem Symbolicate_open_ended_counterexample:
  "Symbolicate (\<lambda>n. n) fg_Usercorn (base fg_Usercorn + 10000) = Some ''g+0x2648'' \<and>
   Symbolicate (\<lambda>n. n) fg_Usercorn (base fg_Usercorn + 10000) \<noteq> Some ''''"
  by (simp add: Symbolicate_def fg_Usercorn_def example_Usercorn_def empty_Loader_def
      fg_symbolicate hex_examples symbolicate_Nil Let_def zero_Symbol_def)

text \<open>
  C2, amended. For every guest PC, Symbolicate takes the offsets from base and from
  interpBase and finds each image's candidate: among the symbols with Start not 0, a
  non-empty name, a signed 64-bit difference offset - Start that is not negative
  (which is Start <= offset whenever offset and Start are below 2^63), and offset <=
  End or End = 0, the first one with the least distance offset - Start; an image
  without such a symbol has the empty candidate with distance 0. Symbolicate never
  panics. It takes the interpreter's candidate when its distance is strictly smaller
  and it has a name, or when the main image has no candidate, and the main image's
  otherwise (ties go to the main image); it returns the name when the distance is 0,
  name+0xN otherwise, and the empty string when neither image has a candidate. With
  the symbols [f,100,120] and [g,200,0] and no interpreter, pc = base + 110 gives
  f+0xa, pc = base + 200 gives g, and pc = base + 10000 gives g+0x2648.
\<close>

theorem Symbolicate_nearest:
  "(\<exists>main interp.
      symbolicate (addr - base u) (Symbols (loader u)) = Some main \<and>
      image_candidate (addr - base u) (Symbols (loader u)) main \<and>
      symbolicate (addr - interpBase u) (interp_symbols u) = Some interp \<and>
      image_candidate (addr - interpBase u) (interp_symbols u) interp \<and>
      Symbolicate dm u addr =
        Some (symbol_text dm (Demangle u)
          (if snd interp < snd main \<and> Name (fst interp) \<noteq> '''' \<or> Name (fst main) = ''''
           then interp else main))) \<and>
   (uint off < 2 ^ 63 \<and> uint (Start s) < 2 ^ 63 \<longrightarrow>
      candidate off s =
        (Start s \<noteq> 0 \<and> Name s \<noteq> '''' \<and> Start s \<le> off \<and> (off \<le> End s \<or> End s = 0))) \<and>
   (Symbols (loader u) = fg_symbols \<and> interpLoader u = None \<and> \<not> Demangle u \<longrightarrow>
      Symbolicate dm u (base u + 110) = Some ''f+0xa'' \<and>
      Symbolicate dm u (base u + 200) = Some ''g'' \<and>
      Symbolicate dm u (base u + 10000) = Some ''g+0x2648'')"
proof (intro conjI impI)
  obtain main where m: "symbolicate (addr - base u) (Symbols (loader u)) = Some main"
    "image_candidate (addr - base u) (Symbols (loader u)) main"
    using symbolicate_image_candidate by blast
  obtain interp where i: "symbolicate (addr - interpBase u) (interp_symbols u) = Some interp"
    "image_candidate (addr - interpBase u) (interp_symbols u) interp"
    using symbolicate_image_candidate by blast
  show "\<exists>main interp.
      symbolicate (addr - base u) (Symbols (loader u)) = Some main \<and>
      image_candidate (addr - base u) (Symbols (loader u)) main \<and>
      symbolicate (addr - interpBase u) (interp_symbols u) = Some interp \<and>
      image_candidate (addr - interpBase u) (interp_symbols u) interp \<and>
      Symbolicate dm u addr =
        Some (symbol_text dm (Demangle u)
          (if snd interp < snd main \<and> Name (fst interp) \<noteq> '''' \<or> Name (fst main) = ''''
           then interp else main))"
    using m i Symbolicate_text [OF m(1) i(1)] by blast
next
  assume "uint off < 2 ^ 63 \<and> uint (Start s) < 2 ^ 63"
  then show "candidate off s =
      (Start s \<noteq> 0 \<and> Name s \<noteq> '''' \<and> Start s \<le> off \<and> (off \<le> End s \<or> End s = 0))"
    by (simp add: candidate_def signed_distance_nonneg)
next
  assume a: "Symbols (loader u) = fg_symbols \<and> interpLoader u = None \<and> \<not> Demangle u"
  then have none: "\<And>x. symbolicate x (interp_symbols u) = Some (zero_Symbol, 0)"
    by (simp add: interp_symbols_def symbolicate_Nil)
  show "Symbolicate dm u (base u + 110) = Some ''f+0xa''"
    using a Symbolicate_text [of "base u + 110" u _ _ dm] none
    by (simp add: fg_symbolicate symbol_text_def hex_examples zero_Symbol_def)
  show "Symbolicate dm u (base u + 200) = Some ''g''"
    using a Symbolicate_text [of "base u + 200" u _ _ dm] none
    by (simp add: fg_symbolicate symbol_text_def hex_examples zero_Symbol_def)
  show "Symbolicate dm u (base u + 10000) = Some ''g+0x2648''"
    using a Symbolicate_text [of "base u + 10000" u _ _ dm] none
    by (simp add: fg_symbolicate symbol_text_def hex_examples zero_Symbol_def)
qed

theorem Symbolicate_nearest_witness:
  "Symbolicate (\<lambda>n. n) fg_Usercorn (0x400000 + 110) = Some ''f+0xa'' \<and>
   Symbolicate (\<lambda>n. n) fg_Usercorn (0x400000 + 200) = Some ''g'' \<and>
   Symbolicate (\<lambda>n. n) fg_Usercorn (0x400000 + 10000) = Some ''g+0x2648'' \<and>
   candidate 110 \<lparr> Name = ''f'', Start = 100, End = 120 \<rparr> \<and>
   \<not> candidate 110 \<lparr> Name = ''g'', Start = 200, End = 0 \<rparr> \<and>
   (\<exists>r. symbolicate 110 fg_symbols = Some r \<and> image_candidate 110 fg_symbols r)"
  using Symbolicate_nearest [where u = fg_Usercorn and dm = "\<lambda>n. n" and addr = "0x400000 + 110"
      and off = 110 and s = "\<lparr> Name = ''f'', Start = 100, End = 120 \<rparr>"]
    Symbolicate_nearest [where u = fg_Usercorn and dm = "\<lambda>n. n" and addr = "0x400000 + 110"
      and off = 110 and s = "\<lparr> Name = ''g'', Start = 200, End = 0 \<rparr>"]
  by (simp add: fg_Usercorn_def example_Usercorn_def empty_Loader_def) blast

subsection \<open>Deadlock detection\<close>

lemma Changes_same: "oldRegs sd = regs \<Longrightarrow> Changes_Count (fst (StatusDiff_Changes sd regs)) = 0"
  by (auto simp: StatusDiff_Changes_def Changes_Count_def filter_empty_conv in_set_zip)

lemma Changes_snapshot: "oldRegs (snd (StatusDiff_Changes sd regs)) = regs"
  by (simp add: StatusDiff_Changes_def)

lemma Symbolicate_total: "\<exists>t. Symbolicate dm u addr = Some t"
proof -
  obtain main interp where "symbolicate (addr - base u) (Symbols (loader u)) = Some main"
    and "symbolicate (addr - interpBase u) (interp_symbols u) = Some interp"
    using symbolicate_image_candidate by blast
  then show ?thesis
    using Symbolicate_text by blast
qed

lemma Symbolicate_status [simp]: "Symbolicate dm (u\<lparr> status := sd \<rparr>) = Symbolicate dm u"
  by (rule ext) (simp add: Symbolicate_def Let_def split: option.split prod.split)

lemma Symbolicate_deadlock [simp]: "Symbolicate dm (u\<lparr> deadlock := d \<rparr>) = Symbolicate dm u"
  by (rule ext) (simp add: Symbolicate_def Let_def split: option.split prod.split)

lemma Symbolicate_lastCode [simp]: "Symbolicate dm (u\<lparr> lastCode := a \<rparr>) = Symbolicate dm u"
  by (rule ext) (simp add: Symbolicate_def Let_def split: option.split prod.split)

lemma print_disas_total:
  "TraceExec u \<Longrightarrow> \<not> TraceReg u \<or> changes \<noteq> None \<Longrightarrow> \<exists>out1. print_disas u changes addr sz = Some out1"
  by (cases "blockloop u"; cases changes) (auto simp: print_disas_def split: bool.split)

text \<open>The hook at a PC other than the last one: the counter is reset and nothing stops.\<close>

lemma hook_code_other_pc:
  assumes "TraceExec u" "traceMatching u" "lastCode u \<noteq> addr"
  shows "\<exists>out1 u'. hook_code dm u regs addr sz = Some ((out1, False), u') \<and>
     TraceExec u' \<and> traceMatching u' \<and> TraceReg u' = TraceReg u \<and> lastCode u' = addr \<and>
     deadlock u' = 0 \<and> (TraceReg u \<longrightarrow> oldRegs (status u') = regs) \<and>
     Symbolicate dm u' = Symbolicate dm u"
proof (cases "TraceReg u")
  case True
  define ch where "ch = fst (StatusDiff_Changes (status u) regs)"
  define sd where "sd = snd (StatusDiff_Changes (status u) regs)"
  have c: "StatusDiff_Changes (status u) regs = (ch, sd)"
    by (simp add: ch_def sd_def)
  obtain out1 where p: "print_disas (u\<lparr> status := sd \<rparr>) (Some ch) addr sz = Some out1"
    using print_disas_total [of "u\<lparr> status := sd \<rparr>" "Some ch"] assms(1) by auto
  have "oldRegs sd = regs"
    unfolding sd_def by (rule Changes_snapshot)
  then show ?thesis
    using assms True by (simp add: hook_code_def c p)
next
  case False
  obtain out1 where p: "print_disas u None addr sz = Some out1"
    using print_disas_total [of u None] assms(1) False by auto
  show ?thesis
    using assms False by (simp add: hook_code_def p)
qed

text \<open>The hook at the same PC as the last one: what it does depends on the register deltas only.\<close>

lemma hook_code_same_pc:
  assumes "TraceExec u" "traceMatching u" "lastCode u = addr"
  shows "\<exists>out1 stop u'. hook_code dm u regs addr sz = Some ((out1, stop), u') \<and>
     TraceExec u' \<and> traceMatching u' \<and> TraceReg u' = TraceReg u \<and> lastCode u' = addr \<and>
     oldRegs (status u') = regs \<and> Symbolicate dm u' = Symbolicate dm u \<and>
     (if 0 < Changes_Count (fst (StatusDiff_Changes (status u) regs))
      then deadlock u' = 0 \<and> \<not> stop
      else deadlock u' = deadlock u + 1 \<and> stop = (2 \<le> deadlock u) \<and>
           (stop \<longrightarrow> (\<exists>t. Symbolicate dm u addr = Some t \<and> Text (deadlock_message addr t) \<in> set out1)))"
proof -
  define ch where "ch = fst (StatusDiff_Changes (status u) regs)"
  define sd where "sd = snd (StatusDiff_Changes (status u) regs)"
  have c: "StatusDiff_Changes (status u) regs = (ch, sd)"
    by (simp add: ch_def sd_def)
  obtain out1 where p: "print_disas (u\<lparr> status := sd \<rparr>) (Some ch) addr sz = Some out1"
    using print_disas_total [of "u\<lparr> status := sd \<rparr>" "Some ch"] assms(1) by auto
  obtain t where t: "Symbolicate dm u addr = Some t"
    using Symbolicate_total by blast
  have snap: "oldRegs sd = regs"
    unfolding sd_def by (rule Changes_snapshot)
  show ?thesis
  proof (cases "0 < Changes_Count ch")
    case True
    then show ?thesis
      using assms snap by (auto simp: hook_code_def c p Let_def ch_def [symmetric])
  next
    case False
    then show ?thesis
      using assms snap by (auto simp: hook_code_def c p t Let_def ch_def [symmetric])
  qed
qed

lemma on_code_any:
  assumes "TraceExec u" "traceMatching u"
  shows "\<exists>r u'. on_code dm u regs addr sz = Some (r, u') \<and>
     TraceExec u' \<and> traceMatching u' \<and> TraceReg u' = TraceReg u \<and> lastCode u' = addr \<and>
     (TraceReg u \<or> lastCode u = addr \<longrightarrow> oldRegs (status u') = regs) \<and>
     Symbolicate dm u' = Symbolicate dm u"
proof (cases "lastCode u = addr")
  case True
  from hook_code_same_pc [OF assms True, of dm regs sz] show ?thesis
    using assms(1) unfolding on_code_def by (simp only: if_True) blast
next
  case False
  from hook_code_other_pc [OF assms False, of dm regs sz] show ?thesis
    using assms(1) False unfolding on_code_def by (simp only: if_True) blast
qed

lemma on_code_repeat:
  assumes "TraceExec u" "traceMatching u" "lastCode u = addr" "oldRegs (status u) = regs"
  shows "\<exists>out1 u'. on_code dm u regs addr sz = Some ((out1, 2 \<le> deadlock u), u') \<and>
     TraceExec u' \<and> traceMatching u' \<and> TraceReg u' = TraceReg u \<and> lastCode u' = addr \<and>
     oldRegs (status u') = regs \<and> Symbolicate dm u' = Symbolicate dm u \<and>
     deadlock u' = deadlock u + 1 \<and>
     (2 \<le> deadlock u \<longrightarrow> (\<exists>t. Symbolicate dm u addr = Some t \<and> Text (deadlock_message addr t) \<in> set out1))"
proof -
  have z: "\<not> 0 < Changes_Count (fst (StatusDiff_Changes (status u) regs))"
    using Changes_same [OF assms(4)] by simp
  from hook_code_same_pc [OF assms(1-3), of dm regs sz] show ?thesis
    using assms(1) unfolding on_code_def by (simp only: if_True z if_False) blast
qed

lemma replicate_4: "replicate 4 x = [x, x, x, x]"
  by (simp add: numeral_eq_Suc)

lemma replicate_5: "replicate 5 x = [x, x, x, x, x]"
  by (simp add: numeral_eq_Suc)

text \<open>Three more observations of the same PC with the same registers end in the fatal stop.\<close>

lemma code_run_three_repeats:
  assumes "TraceExec u" "traceMatching u" "lastCode u = addr" "oldRegs (status u) = regs"
  shows "\<exists>r1 r2 out3 u' t. code_run dm u [(addr, sz, regs), (addr, sz, regs), (addr, sz, regs)] =
       Some ([r1, r2, (out3, True)], u') \<and>
     Symbolicate dm u addr = Some t \<and> Text (deadlock_message addr t) \<in> set out3"
proof -
  obtain r1 u1 where 1: "on_code dm u regs addr sz = Some (r1, u1)"
    and i1: "TraceExec u1" "traceMatching u1" "lastCode u1 = addr" "oldRegs (status u1) = regs"
    and s1: "Symbolicate dm u1 = Symbolicate dm u" and d1: "deadlock u1 = deadlock u + 1"
    using on_code_repeat [OF assms, of dm sz] by blast
  obtain r2 u2 where 2: "on_code dm u1 regs addr sz = Some (r2, u2)"
    and i2: "TraceExec u2" "traceMatching u2" "lastCode u2 = addr" "oldRegs (status u2) = regs"
    and s2: "Symbolicate dm u2 = Symbolicate dm u1" and d2: "deadlock u2 = deadlock u1 + 1"
    using on_code_repeat [OF i1, of dm sz] by blast
  have "2 \<le> deadlock u2"
    using d1 d2 by simp
  then obtain out3 u3 t where 3: "on_code dm u2 regs addr sz = Some ((out3, True), u3)"
    and t: "Symbolicate dm u2 addr = Some t" "Text (deadlock_message addr t) \<in> set out3"
    using on_code_repeat [OF i2, of dm sz] by auto
  have "code_run dm u [(addr, sz, regs), (addr, sz, regs), (addr, sz, regs)] = Some ([r1, r2, (out3, True)], u3)"
    by (simp add: 1 2 3)
  then show ?thesis
    using t s1 s2 by auto
qed

text \<open>
  C3, as the claim states it: with instruction tracing on, four consecutive
  observations of one PC with the same registers end in the fatal stop. They do not
  when register tracing is off and the snapshot is older than the first of them: the
  hook takes a snapshot only at the second observation, sees the registers differ
  from the stale one and resets the counter, which then reaches 2 at the fourth.
\<close>

theorem deadlock_four_counterexample:
  "TraceExec stale_Usercorn \<and> traceMatching stale_Usercorn \<and>
   (\<exists>u'. code_run (\<lambda>n. n) stale_Usercorn (replicate 4 (0x1004, 1, [1])) =
      Some ([([Disas 0x1004 1, Newline], False), ([Disas 0x1004 1, Newline], False),
             ([Disas 0x1004 1, Newline], False), ([Disas 0x1004 1, Newline], False)], u') \<and>
      deadlock u' = 2)"
  by (simp add: replicate_4 stale_Usercorn_def example_Usercorn_def on_code_def hook_code_def
      print_disas_def StatusDiff_Changes_def Changes_Count_def)

text \<open>
  C3, amended. With instruction and register tracing both on (and trace matching on),
  whenever the code hook observes the same PC four consecutive times with the same
  register values, the fourth call prints the fatal deadlock line with the PC and its
  symbol and calls Stop. With instruction tracing alone the snapshot is taken at the
  second observation, and the fifth call does so. A call of the hook stops only at
  the PC of the call before it, with no register delta since the last snapshot and a
  counter of at least 2; a call that finds a register delta resets the counter to 0
  and does not stop.
\<close>

theorem deadlock_detection:
  "(TraceExec u \<and> TraceReg u \<and> traceMatching u \<longrightarrow>
      (\<exists>rs u' t. code_run dm u (replicate 4 (pc, sz, regs)) = Some (rs, u') \<and> length rs = 4 \<and>
         snd (rs ! 3) \<and> Symbolicate dm u pc = Some t \<and>
         Text (deadlock_message pc t) \<in> set (fst (rs ! 3)))) \<and>
   (TraceExec u \<and> traceMatching u \<longrightarrow>
      (\<exists>rs u' t. code_run dm u (replicate 5 (pc, sz, regs)) = Some (rs, u') \<and> length rs = 5 \<and>
         snd (rs ! 4) \<and> Symbolicate dm u pc = Some t \<and>
         Text (deadlock_message pc t) \<in> set (fst (rs ! 4)))) \<and>
   (TraceExec u \<and> hook_code dm u regs pc sz = Some ((out1, stop), v) \<longrightarrow>
      (stop \<longrightarrow> pc = lastCode u \<and> Changes_Count (fst (StatusDiff_Changes (status u) regs)) = 0 \<and>
         2 \<le> deadlock u) \<and>
      (traceMatching u \<and> 0 < Changes_Count (fst (StatusDiff_Changes (status u) regs)) \<longrightarrow>
         \<not> stop \<and> deadlock v = 0))"
proof -
  have four: "\<exists>rs u' t. code_run dm u (replicate 4 (pc, sz, regs)) = Some (rs, u') \<and> length rs = 4 \<and>
         snd (rs ! 3) \<and> Symbolicate dm u pc = Some t \<and>
         Text (deadlock_message pc t) \<in> set (fst (rs ! 3))"
    if a: "TraceExec u \<and> TraceReg u \<and> traceMatching u"
  proof -
    obtain r0 u0 where 0: "on_code dm u regs pc sz = Some (r0, u0)"
      and i0: "TraceExec u0" "traceMatching u0" "lastCode u0 = pc" "oldRegs (status u0) = regs"
      and s0: "Symbolicate dm u0 = Symbolicate dm u"
      using on_code_any [of u dm regs pc sz] a by blast
    obtain r1 r2 out3 u' t where run: "code_run dm u0 [(pc, sz, regs), (pc, sz, regs), (pc, sz, regs)] =
         Some ([r1, r2, (out3, True)], u')"
      and t: "Symbolicate dm u0 pc = Some t" "Text (deadlock_message pc t) \<in> set out3"
      using code_run_three_repeats [OF i0, of dm sz] by blast
    have "code_run dm u (replicate 4 (pc, sz, regs)) = Some ([r0, r1, r2, (out3, True)], u')"
      using run by (simp add: replicate_4 0)
    then show ?thesis
      using t s0 by (intro exI [of _ "[r0, r1, r2, (out3, True)]"] exI [of _ u'] exI [of _ t]) simp
  qed
  have five: "\<exists>rs u' t. code_run dm u (replicate 5 (pc, sz, regs)) = Some (rs, u') \<and> length rs = 5 \<and>
         snd (rs ! 4) \<and> Symbolicate dm u pc = Some t \<and>
         Text (deadlock_message pc t) \<in> set (fst (rs ! 4))"
    if a: "TraceExec u \<and> traceMatching u"
  proof -
    obtain r0 u0 where 0: "on_code dm u regs pc sz = Some (r0, u0)"
      and i0: "TraceExec u0" "traceMatching u0" "lastCode u0 = pc"
      and s0: "Symbolicate dm u0 = Symbolicate dm u"
      using on_code_any [of u dm regs pc sz] a by blast
    obtain r1 u1 where 1: "on_code dm u0 regs pc sz = Some (r1, u1)"
      and i1: "TraceExec u1" "traceMatching u1" "lastCode u1 = pc" "oldRegs (status u1) = regs"
      and s1: "Symbolicate dm u1 = Symbolicate dm u0"
      using on_code_any [of u0 dm regs pc sz] i0 by blast
    obtain r2 r3 out4 u' t where run: "code_run dm u1 [(pc, sz, regs), (pc, sz, regs), (pc, sz, regs)] =
         Some ([r2, r3, (out4, True)], u')"
      and t: "Symbolicate dm u1 pc = Some t" "Text (deadlock_message pc t) \<in> set out4"
      using code_run_three_repeats [OF i1, of dm sz] by blast
    have "code_run dm u (replicate 5 (pc, sz, regs)) = Some ([r0, r1, r2, r3, (out4, True)], u')"
      using run by (simp add: replicate_5 0 1)
    then show ?thesis
      using t s0 s1 by (intro exI [of _ "[r0, r1, r2, r3, (out4, True)]"] exI [of _ u'] exI [of _ t]) simp
  qed
  have stops: "pc = lastCode u \<and> Changes_Count (fst (StatusDiff_Changes (status u) regs)) = 0 \<and>
         2 \<le> deadlock u"
    if a: "TraceExec u \<and> hook_code dm u regs pc sz = Some ((out1, stop), v)" and stop: stop
  proof (cases "traceMatching u")
    case False
    then show ?thesis using a stop by (simp add: hook_code_def)
  next
    case True
    show ?thesis
    proof (cases "lastCode u = pc")
      case same: True
      from hook_code_same_pc [OF _ True same, of dm regs sz] a stop show ?thesis
        using same by (auto split: if_splits)
    next
      case False
      from hook_code_other_pc [OF _ True False, of dm regs sz] a stop show ?thesis
        by auto
    qed
  qed
  have resets: "\<not> stop \<and> deadlock v = 0"
    if a: "TraceExec u \<and> hook_code dm u regs pc sz = Some ((out1, stop), v)"
      and b: "traceMatching u \<and> 0 < Changes_Count (fst (StatusDiff_Changes (status u) regs))"
  proof (cases "lastCode u = pc")
    case True
    from hook_code_same_pc [OF _ _ True, of dm regs sz] a b show ?thesis
      by auto
  next
    case False
    from hook_code_other_pc [OF _ _ False, of dm regs sz] a b show ?thesis
      by auto
  qed
  show ?thesis
    using four five stops resets by blast
qed

theorem deadlock_detection_witness:
  "(\<exists>rs u'. code_run (\<lambda>n. n) (stale_Usercorn \<lparr> TraceReg := True \<rparr>) (replicate 4 (0x1004, 1, [1])) = Some (rs, u') \<and>
      length rs = 4 \<and> snd (rs ! 3) \<and>
      Text ''FATAL: deadlock detected at 0x1004\<newline>'' \<in> set (fst (rs ! 3))) \<and>
   (\<exists>rs u'. code_run (\<lambda>n. n) stale_Usercorn (replicate 5 (0x1004, 1, [1])) = Some (rs, u') \<and>
      length rs = 5 \<and> snd (rs ! 4) \<and>
      Text ''FATAL: deadlock detected at 0x1004\<newline>'' \<in> set (fst (rs ! 4))) \<and>
   hook_code (\<lambda>n. n) (stale_Usercorn \<lparr> lastCode := 0x1004, deadlock := 2 \<rparr>) [1] 0x1004 1 =
     Some (([Disas 0x1004 1, Newline], False),
           stale_Usercorn \<lparr> status := \<lparr> oldRegs = [1] \<rparr>, lastCode := 0x1004, deadlock := 0 \<rparr>) \<and>
   hook_code (\<lambda>n. n) (stale_Usercorn \<lparr> lastCode := 0x1004, deadlock := 2 \<rparr>) [0] 0x1004 1 =
     Some (([Disas 0x1004 1, Newline, Text ''FATAL: deadlock detected at 0x1004\<newline>'', Print_changes []], True),
           stale_Usercorn \<lparr> lastCode := 0x1004, deadlock := 3 \<rparr>)"
proof -
  have sy: "Symbolicate (\<lambda>n. n) stale_Usercorn 0x1004 = Some ''''"
    by (simp add: Symbolicate_def stale_Usercorn_def example_Usercorn_def empty_Loader_def
        symbolicate_Nil zero_Symbol_def)
  have hx: "hex 4100 = ''1004''"
    by (simp add: hex.simps hex_digit_def)
  have fields: "TraceExec stale_Usercorn" "traceMatching stale_Usercorn" "\<not> TraceReg stale_Usercorn"
    "blockloop stale_Usercorn = None" "status stale_Usercorn = \<lparr> oldRegs = [0] \<rparr>"
    by (simp_all add: stale_Usercorn_def example_Usercorn_def)
  have h1: "hook_code (\<lambda>n. n) (stale_Usercorn \<lparr> lastCode := 0x1004, deadlock := 2 \<rparr>) [1] 0x1004 1 =
     Some (([Disas 0x1004 1, Newline], False),
           stale_Usercorn \<lparr> status := \<lparr> oldRegs = [1] \<rparr>, lastCode := 0x1004, deadlock := 0 \<rparr>)"
    by (simp add: fields hook_code_def print_disas_def StatusDiff_Changes_def Changes_Count_def)
  have h2: "hook_code (\<lambda>n. n) (stale_Usercorn \<lparr> lastCode := 0x1004, deadlock := 2 \<rparr>) [0] 0x1004 1 =
     Some (([Disas 0x1004 1, Newline, Text ''FATAL: deadlock detected at 0x1004\<newline>'', Print_changes []], True),
           stale_Usercorn \<lparr> lastCode := 0x1004, deadlock := 3 \<rparr>)"
    by (simp add: fields sy hook_code_def print_disas_def StatusDiff_Changes_def Changes_Count_def
        deadlock_message_def hx)
  have sy': "Symbolicate (\<lambda>n. n) (stale_Usercorn \<lparr> TraceReg := True \<rparr>) 0x1004 = Some []"
    by (simp add: Symbolicate_def stale_Usercorn_def example_Usercorn_def empty_Loader_def
        symbolicate_Nil zero_Symbol_def)
  have msg: "deadlock_message 0x1004 [] = ''FATAL: deadlock detected at 0x1004\<newline>''"
    by (simp add: deadlock_message_def hx)
  have w4: "\<exists>rs u'. code_run (\<lambda>n. n) (stale_Usercorn \<lparr> TraceReg := True \<rparr>) (replicate 4 (0x1004, 1, [1])) = Some (rs, u') \<and>
      length rs = 4 \<and> snd (rs ! 3) \<and>
      Text ''FATAL: deadlock detected at 0x1004\<newline>'' \<in> set (fst (rs ! 3))"
    using deadlock_detection [where u = "stale_Usercorn \<lparr> TraceReg := True \<rparr>" and dm = "\<lambda>n. n"
        and pc = "0x1004" and sz = 1 and regs = "[1]"]
    unfolding sy' by (auto simp: fields msg)
  have w5: "\<exists>rs u'. code_run (\<lambda>n. n) stale_Usercorn (replicate 5 (0x1004, 1, [1])) = Some (rs, u') \<and>
      length rs = 5 \<and> snd (rs ! 4) \<and>
      Text ''FATAL: deadlock detected at 0x1004\<newline>'' \<in> set (fst (rs ! 4))"
    using deadlock_detection [where u = stale_Usercorn and dm = "\<lambda>n. n"
        and pc = "0x1004" and sz = 1 and regs = "[1]"]
    unfolding sy by (auto simp: fields msg)
  show ?thesis
    using w4 w5 h1 h2 by blast
qed

subsection \<open>Entry selection of mapBinary\<close>

text \<open>Loading as the interpreter never loads a further interpreter.\<close>

lemma mapBinary_as_interp:
  assumes "mapBinary U fs LoadFileArch u bin True = Inr ((a, b, c, d), u2)"
  shows "a = 0 \<and> b = c + Entry bin \<and> d = c + Entry bin \<and> interpLoader u2 = interpLoader u"
  using assms
  by (subst (asm) mapBinary.simps) (auto split: sum.splits load_type.splits prod.splits)

text \<open>
  C5. When mapBinary succeeds on the main binary (isInterp is false): with a non-empty
  interpreter path, the interpreter bin that the loader returned for the prefixed path
  is recorded as the interpreter, entry = interpBase + bin.Entry() and binEntry = base
  + main.Entry(); without an interpreter, interpBase = 0 and entry = binEntry = base +
  main.Entry().
\<close>

theorem mapBinary_entry:
  "mapBinary U fs LoadFileArch u l False = Inr ((ib, e, b, be), u') \<longrightarrow>
     (Interp l \<noteq> '''' \<longrightarrow>
        (\<exists>bin. LoadFileArch (PrefixPath fs (LoadPrefix u) (Interp l) True) (Arch l) = Inr bin \<and>
           interpLoader u' = Some bin \<and> e = ib + Entry bin \<and> be = b + Entry l)) \<and>
     (Interp l = '''' \<longrightarrow> ib = 0 \<and> e = b + Entry l \<and> be = b + Entry l)"
proof (intro impI conjI)
  assume r: "mapBinary U fs LoadFileArch u l False = Inr ((ib, e, b, be), u')"
  {
    assume "Interp l = ''''"
    with r have "ib = 0 \<and> e = b + Entry l \<and> be = b + Entry l"
      by (subst (asm) mapBinary.simps) (auto split: sum.splits load_type.splits prod.splits)
    then show "ib = 0" "e = b + Entry l" "be = b + Entry l"
      by simp_all
  }
  {
    assume i: "Interp l \<noteq> ''''"
    from r i obtain bin m' x y where
      bin: "LoadFileArch (PrefixPath fs (LoadPrefix u) (Interp l) True) (Arch l) = Inr bin"
      and rec: "mapBinary U fs LoadFileArch (u\<lparr> Unicorn := m', interpLoader := Some bin \<rparr>) bin True =
        Inr ((x, y, ib, e), u')"
      and be: "be = b + Entry l"
      by (subst (asm) mapBinary.simps) (auto split: sum.splits load_type.splits prod.splits if_splits)
    from mapBinary_as_interp [OF rec] have "e = ib + Entry bin" "interpLoader u' = Some bin"
      by simp_all
    with bin be show "\<exists>bin. LoadFileArch (PrefixPath fs (LoadPrefix u) (Interp l) True) (Arch l) = Inr bin \<and>
           interpLoader u' = Some bin \<and> e = ib + Entry bin \<and> be = b + Entry l"
      by blast
  }
qed

lemma spec_ops_simps:
  "Unicorn_Mmap (spec_ops place) = spec_Mmap place"
  "Unicorn_MemMapProt (spec_ops place) = spec_MemMapProt"
  "Unicorn_MemWrite (spec_ops place) = spec_MemWrite"
  by (simp_all add: spec_ops_def)

lemma PrefixPath_no_prefix: "PrefixPath fs '''' path force = path"
  by (simp add: PrefixPath_def)

lemma mapBinary_static_example:
  "\<exists>u'. mapBinary (spec_ops place_at_hint) (list_fs []) example_LoadFileArch example_Usercorn
      static_Loader False = Inr ((0, 0x401000, 0, 0x401000), u') \<and> interpLoader u' = None"
  by (simp add: mapBinary.simps static_Loader_def example_Usercorn_def align_def UC_MEM_ALIGN_def
      spec_ops_def spec_MemMapProt_def spec_MemWrite_def empty_Memory_def PROT_ALL_def)

lemma mapBinary_ld_example:
  "ForceInterpBase u = 0 \<Longrightarrow>
   mapBinary (spec_ops place_at_hint) fs LoadFileArch u ld_Loader True =
     Inr ((0, 0x1001000, 0x1000000, 0x1001000),
          u\<lparr> Unicorn := snd (spec_MemWrite (snd (spec_Mmap place_at_hint (Unicorn u) 0x1000000 0x2000))
                               0x1000000 ''ld'') \<rparr>)"
  by (subst mapBinary.simps)
    (simp add: ld_Loader_def align_def UC_MEM_ALIGN_def spec_ops_simps spec_MemMapProt_def
      spec_MemWrite_def spec_Mmap_def place_at_hint_def PROT_READ_def PROT_WRITE_def)

lemma mapBinary_dynamic_example:
  "\<exists>u'. mapBinary (spec_ops place_at_hint) (list_fs []) example_LoadFileArch example_Usercorn
      dynamic_Loader False = Inr ((0x1000000, 0x1001000, 0, 0x401000), u') \<and>
      interpLoader u' = Some ld_Loader"
proof -
  have fields: "Type dynamic_Loader = EXEC" "Interp dynamic_Loader = ''/lib/ld.so''"
    "Arch dynamic_Loader = ''x86_64''" "Entry dynamic_Loader = 0x401000"
    "Segments dynamic_Loader = Inr [\<lparr> Addr = 0x400000, Size = 0x2000, Prot = 7, Data = Inr ''code'' \<rparr>]"
    "Arch ld_Loader = ''x86_64''"
    by (simp_all add: dynamic_Loader_def static_Loader_def ld_Loader_def)
  have u: "ForceBase example_Usercorn = 0" "LoadPrefix example_Usercorn = ''''"
    "ForceInterpBase example_Usercorn = 0"
    by (simp_all add: example_Usercorn_def)
  show ?thesis
    by (subst mapBinary.simps)
      (simp add: fields u align_def UC_MEM_ALIGN_def spec_ops_simps spec_MemMapProt_def
        spec_MemWrite_def PrefixPath_no_prefix example_LoadFileArch_def mapBinary_ld_example)
qed

theorem mapBinary_entry_witness:
  "(\<exists>u'. mapBinary (spec_ops place_at_hint) (list_fs []) example_LoadFileArch example_Usercorn
      dynamic_Loader False = Inr ((0x1000000, 0x1001000, 0, 0x401000), u') \<and>
      interpLoader u' = Some ld_Loader) \<and>
   Interp dynamic_Loader \<noteq> '''' \<and> 0x1001000 = 0x1000000 + Entry ld_Loader \<and>
   (\<exists>u'. mapBinary (spec_ops place_at_hint) (list_fs []) example_LoadFileArch example_Usercorn
      static_Loader False = Inr ((0, 0x401000, 0, 0x401000), u')) \<and>
   Interp static_Loader = ''''"
proof -
  obtain u1 where 1: "mapBinary (spec_ops place_at_hint) (list_fs []) example_LoadFileArch example_Usercorn
      dynamic_Loader False = Inr ((0x1000000, 0x1001000, 0, 0x401000), u1)"
    and il: "interpLoader u1 = Some ld_Loader"
    using mapBinary_dynamic_example by blast
  obtain u2 where 2: "mapBinary (spec_ops place_at_hint) (list_fs []) example_LoadFileArch example_Usercorn
      static_Loader False = Inr ((0, 0x401000, 0, 0x401000), u2)"
    using mapBinary_static_example by blast
  have i: "Interp dynamic_Loader \<noteq> ''''" "Interp static_Loader = ''''"
    by (simp_all add: dynamic_Loader_def static_Loader_def)
  from mapBinary_entry [where l = dynamic_Loader and u' = u1] 1 i(1) il
  have "0x1001000 = 0x1000000 + Entry ld_Loader"
    by auto
  moreover from mapBinary_entry [where l = static_Loader and u' = u2] 2 i(2)
  have "(0x401000 :: uint64) = 0 + Entry static_Loader"
    by (auto simp: static_Loader_def)
  ultimately show ?thesis
    using 1 2 il i by blast
qed

subsection \<open>Readlink of /proc/self/exe\<close>

text \<open>For a size from 1 to \<open>2^63\<close> the wrapped \<^verbatim>\<open>int(size)-1\<close> is the number \<open>size - 1\<close>.\<close>

lemma Len_minus_one:
  assumes "1 \<le> (sz :: uint64)" "sz \<le> 0x8000000000000000"
  shows "unat (sz - 1) = unat sz - 1" "sint (sz - 1) = int (unat sz - 1)" "1 \<le> unat sz"
proof -
  have nz: "sz \<noteq> 0"
    using assms(1) by auto
  then show m: "unat (sz - 1) = unat sz - 1"
    by (rule unat_minus_one)
  have "unat sz \<le> unat (0x8000000000000000 :: uint64)"
    using assms(2) by (simp only: word_le_nat_alt)
  then have le: "unat sz \<le> 2 ^ 63"
    by simp
  show k: "1 \<le> unat sz"
    using nz by (simp add: Suc_le_eq unat_gt_0)
  have "unat sz - 1 < 2 ^ 63"
    using le k by linarith
  then have "unat (sz - 1) < 2 ^ 63"
    by (simp only: m)
  then have "uint (sz - 1) < 2 ^ 63"
    by (metis of_nat_less_iff of_nat_numeral of_nat_power uint_nat)
  then have "0 \<le> sint (sz - 1)"
    by (simp only: sint_nonneg_iff)
  then have "uint (sz - 1) = sint (sz - 1)"
    by (rule sint_nonneg_uint)
  moreover have "uint (sz - 1) = int (unat (sz - 1))"
    by (rule uint_nat)
  ultimately show "sint (sz - 1) = int (unat sz - 1)"
    by (simp only: m)
qed

lemma Readlink_truncate:
  assumes "1 \<le> (sz :: uint64)" "sz \<le> 0x8000000000000000"
  shows "(if int (length name) > sint (sz - 1)
          then (if unat (sz - 1) \<le> length name then Some (take (unat (sz - 1)) name) else None)
          else Some name) = Some (take (unat sz - 1) name)"
proof -
  define k where "k = unat sz - 1"
  have s: "sint (sz - 1) = int k" and m: "unat (sz - 1) = k"
    using Len_minus_one [OF assms] by (simp_all add: k_def)
  show ?thesis
    unfolding s m k_def [symmetric] by simp
qed

lemma Readlink_result:
  assumes "1 \<le> (sz :: uint64)" "sz \<le> 0x8000000000000000"
  shows "PosixKernel_Readlink U os_Readlink ''linux'' u ''/proc/self/exe'' buf sz =
     (case Unicorn_MemWrite U (Unicorn u) buf (take (unat sz - 1) (exe u) @ [CHR 0x00]) of
        (Some err, m) \<Rightarrow> Some (UINT64_MAX, u\<lparr> Unicorn := m \<rparr>)
      | (None, m) \<Rightarrow> Some (of_nat (length (take (unat sz - 1) (exe u))), u\<lparr> Unicorn := m \<rparr>))"
  unfolding PosixKernel_Readlink_def Buf_Pack_def
  by (simp add: Readlink_truncate [OF assms] split: prod.split option.split)

text \<open>
  C8, as the claim states it: Readlink of /proc/self/exe writes the path with its NUL
  byte into the guest buffer and returns the length of the path. It fails where the
  write is refused: with exe /tmp/hello, size 64 and the buffer at 0x7000 in memory
  that is not mapped, nothing is written and the result is UINT64_MAX, not 10. And
  with size 0 the call returns nothing: the slice \<^verbatim>\<open>name[:size-1]\<close> panics.
\<close>

theorem Readlink_unwritten_counterexample:
  "exe example_Usercorn = ''/tmp/hello'' \<and>
   PosixKernel_Readlink (strict_ops place_at_hint) no_links ''linux'' example_Usercorn
     ''/proc/self/exe'' 0x7000 64 = Some (UINT64_MAX, example_Usercorn) \<and>
   UINT64_MAX \<noteq> 10 \<and>
   PosixKernel_Readlink (spec_ops place_at_hint) no_links ''linux'' example_Usercorn
     ''/proc/self/exe'' 0x7000 0 = None"
proof -
  have e: "exe example_Usercorn = ''/tmp/hello''" "Unicorn example_Usercorn = empty_Memory"
    by (simp_all add: example_Usercorn_def)
  have "PosixKernel_Readlink (strict_ops place_at_hint) no_links ''linux'' example_Usercorn
     ''/proc/self/exe'' 0x7000 64 = Some (UINT64_MAX, example_Usercorn)"
    by (subst Readlink_result) (simp_all add: e strict_ops_simps strict_MemWrite_def empty_Memory_def)
  moreover have "PosixKernel_Readlink (spec_ops place_at_hint) no_links ''linux'' example_Usercorn
     ''/proc/self/exe'' 0x7000 0 = None"
    by (simp add: PosixKernel_Readlink_def e unsigned_minus_1_eq_mask mask_eq_exp_minus_1)
  ultimately show ?thesis
    by (simp add: e UINT64_MAX_def)
qed

text \<open>
  C8, amended. Under a Linux guest, Readlink of /proc/self/exe with a size from 1 to
  \<open>2^63\<close> takes the emulator's executable path, cut to at most size-1 bytes, and writes
  it with a NUL byte after it at the guest buffer; when that write succeeds it returns
  the length of the path as cut, and when the write fails it returns UINT64_MAX. With
  exe /tmp/hello and size 64 the bytes written are /tmp/hello and NUL, and the result
  of a successful write is 10.
\<close>

theorem Readlink_proc_self_exe:
  "(1 \<le> sz \<and> sz \<le> 0x8000000000000000 \<and>
    Unicorn_MemWrite U (Unicorn u) buf (take (unat sz - 1) (exe u) @ [CHR 0x00]) = (None, m) \<longrightarrow>
      PosixKernel_Readlink U os_Readlink ''linux'' u ''/proc/self/exe'' buf sz =
        Some (of_nat (length (take (unat sz - 1) (exe u))), u\<lparr> Unicorn := m \<rparr>) \<and>
      length (take (unat sz - 1) (exe u)) \<le> unat sz - 1) \<and>
   (1 \<le> sz \<and> sz \<le> 0x8000000000000000 \<and>
    Unicorn_MemWrite U (Unicorn u) buf (take (unat sz - 1) (exe u) @ [CHR 0x00]) = (Some err, m) \<longrightarrow>
      PosixKernel_Readlink U os_Readlink ''linux'' u ''/proc/self/exe'' buf sz =
        Some (UINT64_MAX, u\<lparr> Unicorn := m \<rparr>)) \<and>
   (exe u = ''/tmp/hello'' \<and>
    Unicorn_MemWrite U (Unicorn u) buf (''/tmp/hello'' @ [CHR 0x00]) = (None, m) \<longrightarrow>
      PosixKernel_Readlink U os_Readlink ''linux'' u ''/proc/self/exe'' buf 64 =
        Some (10, u\<lparr> Unicorn := m \<rparr>))"
proof -
  have 1: "PosixKernel_Readlink U os_Readlink ''linux'' u ''/proc/self/exe'' buf sz =
        Some (of_nat (length (take (unat sz - 1) (exe u))), u\<lparr> Unicorn := m \<rparr>)"
    if "1 \<le> sz" "sz \<le> 0x8000000000000000"
      "Unicorn_MemWrite U (Unicorn u) buf (take (unat sz - 1) (exe u) @ [CHR 0x00]) = (None, m)"
    using that by (simp add: Readlink_result)
  have 2: "PosixKernel_Readlink U os_Readlink ''linux'' u ''/proc/self/exe'' buf sz =
        Some (UINT64_MAX, u\<lparr> Unicorn := m \<rparr>)"
    if "1 \<le> sz" "sz \<le> 0x8000000000000000"
      "Unicorn_MemWrite U (Unicorn u) buf (take (unat sz - 1) (exe u) @ [CHR 0x00]) = (Some err, m)"
    using that by (simp add: Readlink_result)
  have 3: "PosixKernel_Readlink U os_Readlink ''linux'' u ''/proc/self/exe'' buf 64 =
        Some (10, u\<lparr> Unicorn := m \<rparr>)"
    if "exe u = ''/tmp/hello''"
      "Unicorn_MemWrite U (Unicorn u) buf (''/tmp/hello'' @ [CHR 0x00]) = (None, m)"
    using that by (subst Readlink_result) simp_all
  have 4: "length (take (unat sz - 1) (exe u)) \<le> unat sz - 1"
    by simp
  show ?thesis
    using 1 2 3 4 by blast
qed

theorem Readlink_proc_self_exe_witness:
  "(\<exists>u'. PosixKernel_Readlink (spec_ops place_at_hint) no_links ''linux'' example_Usercorn
       ''/proc/self/exe'' 0x7000 64 = Some (10, u') \<and>
     read_bytes (Unicorn u') 0x7000 11 = ''/tmp/hello'' @ [CHR 0x00]) \<and>
   (\<exists>u'. PosixKernel_Readlink (spec_ops place_at_hint) no_links ''linux'' example_Usercorn
       ''/proc/self/exe'' 0x7000 5 = Some (4, u') \<and>
     read_bytes (Unicorn u') 0x7000 5 = ''/tmp'' @ [CHR 0x00]) \<and>
   PosixKernel_Readlink (spec_ops place_at_hint) no_links ''linux'' example_Usercorn
       ''/proc/self/exe'' 0x7000 0x8000000000000000 =
     PosixKernel_Readlink (spec_ops place_at_hint) no_links ''linux'' example_Usercorn
       ''/proc/self/exe'' 0x7000 64 \<and>
   PosixKernel_Readlink (strict_ops place_at_hint) no_links ''linux'' example_Usercorn
       ''/proc/self/exe'' 0x7000 5 = Some (UINT64_MAX, example_Usercorn)"
proof -
  have e: "exe example_Usercorn = ''/tmp/hello''" "Unicorn example_Usercorn = empty_Memory"
    by (simp_all add: example_Usercorn_def)
  have "PosixKernel_Readlink (spec_ops place_at_hint) no_links ''linux'' example_Usercorn
       ''/proc/self/exe'' 0x7000 64 =
     Some (10, example_Usercorn \<lparr> Unicorn := snd (spec_MemWrite empty_Memory 0x7000 (''/tmp/hello'' @ [CHR 0x00])) \<rparr>)"
    using Readlink_proc_self_exe [where U = "spec_ops place_at_hint" and u = example_Usercorn
        and buf = "0x7000" and sz = 64 and os_Readlink = no_links
        and m = "snd (spec_MemWrite empty_Memory 0x7000 (''/tmp/hello'' @ [CHR 0x00]))"]
    by (simp add: e spec_ops_def spec_MemWrite_def)
  moreover have "PosixKernel_Readlink (spec_ops place_at_hint) no_links ''linux'' example_Usercorn
       ''/proc/self/exe'' 0x7000 5 =
     Some (4, example_Usercorn \<lparr> Unicorn := snd (spec_MemWrite empty_Memory 0x7000 (''/tmp'' @ [CHR 0x00])) \<rparr>)"
    using Readlink_proc_self_exe [where U = "spec_ops place_at_hint" and u = example_Usercorn
        and buf = "0x7000" and sz = 5 and os_Readlink = no_links
        and m = "snd (spec_MemWrite empty_Memory 0x7000 (''/tmp'' @ [CHR 0x00]))"]
    by (simp add: e spec_ops_def spec_MemWrite_def)
  moreover have "PosixKernel_Readlink (spec_ops place_at_hint) no_links ''linux'' example_Usercorn
       ''/proc/self/exe'' 0x7000 0x8000000000000000 =
     Some (10, example_Usercorn \<lparr> Unicorn := snd (spec_MemWrite empty_Memory 0x7000 (''/tmp/hello'' @ [CHR 0x00])) \<rparr>)"
    using Readlink_proc_self_exe [where U = "spec_ops place_at_hint" and u = example_Usercorn
        and buf = "0x7000" and sz = "0x8000000000000000" and os_Readlink = no_links
        and m = "snd (spec_MemWrite empty_Memory 0x7000 (''/tmp/hello'' @ [CHR 0x00]))"]
    by (simp add: e spec_ops_def spec_MemWrite_def)
  moreover have "PosixKernel_Readlink (strict_ops place_at_hint) no_links ''linux'' example_Usercorn
       ''/proc/self/exe'' 0x7000 5 = Some (UINT64_MAX, example_Usercorn)"
    using Readlink_proc_self_exe [where U = "strict_ops place_at_hint" and u = example_Usercorn
        and buf = "0x7000" and sz = 5 and os_Readlink = no_links
        and m = empty_Memory and err = "External ''write to unmapped memory''"]
    by (simp add: e strict_ops_simps strict_MemWrite_def empty_Memory_def)
  ultimately show ?thesis
    by (simp add: read_bytes_def upt_rec spec_MemWrite_def empty_Memory_def)
qed

subsection \<open>Mmap of the POSIX kernel\<close>

lemma spec_MemWrite_mapped: "mapped (snd (spec_MemWrite m a bs)) = mapped m"
  by (simp add: spec_MemWrite_def)

text \<open>
  What Mmap does where it returns. It does not look at prot and flags: any two calls
  that differ in them only have the same outcome. Mmap2 is Mmap. A call with a
  descriptor that is not above 0, or with a size that can be allocated, returns, and
  the value returned is the base address the facade's Mmap gave, whatever error came
  with it and whatever the host did with the descriptor. With the facade of the spec
  such a call adds exactly one mapping, of the aligned size, read-write.
\<close>

lemma Mmap_prot_flags_unused:
  "PosixKernel_Mmap U H s addrHint sz prot flags fd off =
     PosixKernel_Mmap U H s addrHint sz prot' flags' fd off"
  "PosixKernel_Mmap2 U H s addrHint sz prot flags fd off =
     PosixKernel_Mmap U H s addrHint sz prot flags fd off"
  by (simp_all add: PosixKernel_Mmap_def PosixKernel_Mmap2_def)

lemma Mmap_returns_base:
  assumes "fd \<le> 0 \<or> \<not> make_panics H sz"
  shows "\<exists>s'. PosixKernel_Mmap U H s addrHint sz prot flags fd off =
           Some (fst (fst (Unicorn_Mmap U (Unicorn (fst s)) addrHint sz)), s')"
  using assms by (auto simp: PosixKernel_Mmap_def Let_def split: prod.split)

lemma Mmap_spec_mapping:
  assumes "PosixKernel_Mmap (spec_ops place) H s addrHint sz prot flags fd off = Some (a, s')"
  shows "mapped (Unicorn (fst s')) =
           mapped (Unicorn (fst s)) @
             [\<lparr> m_Addr = a, m_Size = snd (align addrHint sz), m_Prot = PROT_READ OR PROT_WRITE \<rparr>]"
  using assms
  by (auto simp: PosixKernel_Mmap_def spec_ops_def spec_Mmap_def spec_MemMapProt_def
      spec_MemWrite_def Let_def split: prod.splits if_splits)

lemma Mmap_examples:
  "\<exists>s'. PosixKernel_Mmap (spec_ops place_at_hint) file_host (example_Usercorn, [(5, ''data'')])
          0x7000 4 0 0 5 0 = Some (0x7000, s') \<and>
        read_bytes (Unicorn (fst s')) 0x7000 4 = ''data''"
  "\<exists>s'. PosixKernel_Mmap (spec_ops place_at_hint) failing_host (example_Usercorn, [(5, ''data'')])
          0x7000 4 0 0 5 0 = Some (0x7000, s') \<and>
        mapped (Unicorn (fst s')) = [\<lparr> m_Addr = 0x7000, m_Size = 0x1000, m_Prot = 3 \<rparr>]"
  by (simp_all add: PosixKernel_Mmap_def make_panics_def spec_ops_def spec_Mmap_def
      spec_MemMapProt_def spec_MemWrite_def place_at_hint_def align_def UC_MEM_ALIGN_def
      file_host_def failing_host_def example_Usercorn_def empty_Memory_def read_bytes_def upt_rec
      PROT_READ_def PROT_WRITE_def)

lemma Mmap_panics:
  "0 < fd \<Longrightarrow> make_panics H sz \<Longrightarrow> PosixKernel_Mmap U H s addrHint sz prot flags fd off = None"
  by (simp add: PosixKernel_Mmap_def Let_def split: prod.split)

text \<open>
  C10. Mmap, and Mmap2 with it, called with descriptor 5 and the size \<open>2^63\<close> returns
  no address: on every engine facade and every host, from every state and with every
  hint, prot, flags and offset, the call panics at \<^verbatim>\<open>make([]byte, size)\<close>, after the
  facade has allocated the region.
\<close>

theorem Mmap_size_out_of_range:
  "PosixKernel_Mmap U H s addrHint 0x8000000000000000 prot flags 5 off = None \<and>
   PosixKernel_Mmap2 U H s addrHint 0x8000000000000000 prot flags 5 off = None"
  by (simp add: PosixKernel_Mmap2_def Mmap_panics make_panics_def)

end
